theory Spec2Isabelle
  imports Complex_Main "HOL-Library.AList"
begin

section \<open>JavaScript values as the handlers see them\<close>

text \<open>
  The webhook bodies and the CRM responses are parsed JSON. A missing property reads as
  \<open>undefined\<close>, so \<open>JUndefined\<close> is a value of the model next to the JSON ones. An
  object is the list of its own properties, with distinct names, in the order in which the
  engine enumerates them (\<open>Object.keys\<close> is the list of first components). A number is
  the value of the double that the parser produced, a rational; the handlers only test a
  number for being zero and pass it on.
\<close>

datatype jsval =
    JUndefined
  | JNull
  | JBool bool
  | JNum rat
  | JStr string
  | JArr "jsval list"
  | JObj "(string \<times> jsval) list"

text \<open>Truthiness, as \<open>!x\<close>, \<open>x || y\<close> and \<open>x && y\<close> decide it.\<close>

fun truthy :: "jsval \<Rightarrow> bool" where
  "truthy JUndefined = False"
| "truthy JNull = False"
| "truthy (JBool b) = b"
| "truthy (JNum n) = (n \<noteq> 0)"
| "truthy (JStr s) = (s \<noteq> [])"
| "truthy (JArr xs) = True"
| "truthy (JObj kvs) = True"

definition js_or :: "jsval \<Rightarrow> jsval \<Rightarrow> jsval" where
  "js_or a b = (if truthy a then a else b)"

fun nullish :: "jsval \<Rightarrow> bool" where
  "nullish JUndefined = True"
| "nullish JNull = True"
| "nullish v = False"

text \<open>
  \<open>v.k\<close> on a value that is neither \<open>null\<close> nor \<open>undefined\<close>, for the property
  names the handlers read (none of them is defined on the prototypes of strings, numbers,
  booleans or arrays): an object yields its own property, everything else \<open>undefined\<close>.
\<close>

fun js_get :: "jsval \<Rightarrow> string \<Rightarrow> jsval" where
  "js_get (JObj kvs) k = (case map_of kvs k of Some v \<Rightarrow> v | None \<Rightarrow> JUndefined)"
| "js_get v k = JUndefined"

text \<open>\<open>v?.k\<close>: \<open>undefined\<close> on \<open>null\<close> and \<open>undefined\<close>, \<open>v.k\<close> otherwise.\<close>

definition js_opt :: "jsval \<Rightarrow> string \<Rightarrow> jsval" where
  "js_opt v k = (if nullish v then JUndefined else js_get v k)"

text \<open>
  The exceptions that the code can throw, by the place that throws them: reading a
  property of \<open>null\<close> or \<open>undefined\<close>, destructuring it, calling \<open>split\<close> on a value
  that has none, converting an object to a string, feeding \<open>undefined\<close> to the HMAC,
  \<open>Object.keys\<close> of \<open>null\<close> or \<open>undefined\<close>, and a request that axios rejects
  (transport error or non-2xx status), with its message.
\<close>

datatype js_error =
    CannotRead jsval string
  | CannotDestructure jsval
  | NotAFunction string
  | CannotConvertToPrimitive
  | InvalidHmacData
  | CannotConvertToObject
  | RequestFailed string

type_synonym 'a thrown = "js_error + 'a"

definition js_member :: "jsval \<Rightarrow> string \<Rightarrow> jsval thrown" where
  "js_member v k = (if nullish v then Inl (CannotRead v k) else Inr (js_get v k))"

text \<open>
  A template literal converts its values to strings. For parsed JSON the conversion throws
  exactly when it meets an object with an own property \<open>toString\<close>: no JSON value is
  callable, and the inherited \<open>valueOf\<close> returns the object itself. An array converts
  its elements (\<open>null\<close> and \<open>undefined\<close> as the empty string).
\<close>

fun js_to_string_ok :: "jsval \<Rightarrow> bool" where
  "js_to_string_ok (JObj kvs) = (''toString'' \<notin> set (map fst kvs))"
| "js_to_string_ok (JArr xs) = list_all js_to_string_ok xs"
| "js_to_string_ok v = True"

text \<open>\<open>s.split(' ')\<close> and \<open>xs.join(' ')\<close> on strings.\<close>

fun split_on :: "char \<Rightarrow> string \<Rightarrow> string list" where
  "split_on c [] = [[]]"
| "split_on c (x # xs) =
     (if x = c then [] # split_on c xs
      else (case split_on c xs of
              [] \<Rightarrow> [[x]]
            | w # ws \<Rightarrow> (x # w) # ws))"

fun join_with :: "string \<Rightarrow> string list \<Rightarrow> string" where
  "join_with sep [] = []"
| "join_with sep [w] = w"
| "join_with sep (w # v # ws) = w @ sep @ join_with sep (v # ws)"

section \<open>The process environment and the request\<close>

text \<open>
  \<open>WEBHOOK_SECRET\<close> is the environment variable (\<open>None\<close> when unset). The HMAC of
  Node's \<open>crypto\<close> module, \<open>JSON.stringify\<close> and the message text of an exception
  (\<open>error.message\<close>) belong to the platform and are parameters of the model.
\<close>

record runtime =
  WEBHOOK_SECRET :: "string option"
  hmac_sha256_hex :: "string \<Rightarrow> string \<Rightarrow> string"
  JSON_stringify :: "jsval \<Rightarrow> string"
  error_message :: "js_error \<Rightarrow> string"

text \<open>
  A request: the header \<open>x-webhook-signature\<close> (\<open>None\<close> when the header is absent), the
  bytes of the body as the sender wrote them, and what body-parser left in \<open>req.body\<close>,
  which is \<open>undefined\<close> when it parsed nothing. The handlers read the header and
  \<open>req.body\<close>; nothing in the code reads the bytes.
\<close>

record request =
  x_webhook_signature :: "string option"
  raw_body :: string
  body :: jsval

record http_response =
  status :: nat
  json :: jsval

text \<open>
  \<open>JSON.stringify(undefined)\<close> is \<open>undefined\<close>, and \<open>update(undefined)\<close> throws; every
  other body has a serialisation.
\<close>

definition verifyWebhookSignature :: "runtime \<Rightarrow> request \<Rightarrow> bool thrown" where
  "verifyWebhookSignature rt req =
     (case WEBHOOK_SECRET rt of
        None \<Rightarrow> Inr True
      | Some secret \<Rightarrow>
          if secret = [] then Inr True
          else (case x_webhook_signature req of
                  None \<Rightarrow> Inr False
                | Some signature \<Rightarrow>
                    if signature = [] then Inr False
                    else if body req = JUndefined then Inl InvalidHmacData
                    else Inr (hmac_sha256_hex rt secret (JSON_stringify rt (body req))
                              = signature)))"

section \<open>The HubSpot API client\<close>

text \<open>
  The remote CRM is an external service; the three calls the code makes are parameters of
  the model, functions on a CRM state \<open>'s\<close>. A call that axios rejects is \<open>Inl\<close> of the
  error. The search returns the \<open>results\<close> array of the response body, the other two
  the response body.
\<close>

record 's hubspotAPI =
  post_contacts_search :: "jsval \<Rightarrow> 's \<Rightarrow> (jsval list) thrown \<times> 's"
  post_contacts :: "jsval \<Rightarrow> 's \<Rightarrow> jsval thrown \<times> 's"
  patch_contacts :: "jsval \<Rightarrow> jsval \<Rightarrow> 's \<Rightarrow> jsval thrown \<times> 's"

text \<open>The calls issued to the CRM, in order: the trace of a handler run.\<close>

datatype crm_call =
    Search jsval
  | Create "(string \<times> jsval) list"
  | Update jsval "(string \<times> jsval) list"

record contact_info =
  firstName :: jsval
  lastName :: jsval
  phone :: jsval
  company :: jsval

record hubspot_contact =
  found :: bool
  contactId :: jsval
  properties :: jsval

text \<open>\<open>...(v && { k: v })\<close> inside an object literal.\<close>

definition spread_if :: "string \<Rightarrow> jsval \<Rightarrow> (string \<times> jsval) list" where
  "spread_if k v = (if truthy v then [(k, v)] else [])"

definition create_properties :: "jsval \<Rightarrow> contact_info \<Rightarrow> (string \<times> jsval) list" where
  "create_properties email contactData =
     [(''email'', email), (''source_system'', JStr ''SGCRM'')]
     @ spread_if ''firstname'' (firstName contactData)
     @ spread_if ''lastname'' (lastName contactData)
     @ spread_if ''phone'' (phone contactData)
     @ spread_if ''company'' (company contactData)"

text \<open>
  Before the create call the function logs \<open>Creating new HubSpot contact for ${email}\<close>,
  which converts the email to a string.
\<close>

definition getOrCreateHubSpotContact ::
  "'s hubspotAPI \<Rightarrow> jsval \<Rightarrow> contact_info \<Rightarrow> 's
     \<Rightarrow> hubspot_contact thrown \<times> crm_call list \<times> 's" where
  "getOrCreateHubSpotContact api email contactData s =
     (case post_contacts_search api email s of
        (Inl err, s1) \<Rightarrow> (Inl err, [Search email], s1)
      | (Inr results, s1) \<Rightarrow>
          (case results of
             r # _ \<Rightarrow>
               (case js_member r ''id'' of
                  Inl err \<Rightarrow> (Inl err, [Search email], s1)
                | Inr rid \<Rightarrow>
                    (Inr \<lparr>found = True, contactId = rid, properties = js_get r ''properties''\<rparr>,
                     [Search email], s1))
           | [] \<Rightarrow>
               if \<not> js_to_string_ok email
               then (Inl CannotConvertToPrimitive, [Search email], s1)
               else
                 (let props = create_properties email contactData in
                  case post_contacts api (JObj props) s1 of
                    (Inl err, s2) \<Rightarrow> (Inl err, [Search email, Create props], s2)
                  | (Inr data, s2) \<Rightarrow>
                      (case js_member data ''id'' of
                         Inl err \<Rightarrow> (Inl err, [Search email, Create props], s2)
                       | Inr cid \<Rightarrow>
                           (Inr \<lparr>found = False, contactId = cid,
                                 properties = js_get data ''properties''\<rparr>,
                            [Search email, Create props], s2)))))"

text \<open>
  The URL of the update, \<open>/crm/v3/objects/contacts/${contactId}\<close>, converts the contact
  id to a string before the request is made.
\<close>

definition updateHubSpotContact ::
  "'s hubspotAPI \<Rightarrow> jsval \<Rightarrow> (string \<times> jsval) list \<Rightarrow> 's
     \<Rightarrow> jsval thrown \<times> crm_call list \<times> 's" where
  "updateHubSpotContact api cid propertiesToUpdate s =
     (if \<not> js_to_string_ok cid then (Inl CannotConvertToPrimitive, [], s)
      else (case patch_contacts api cid (JObj propertiesToUpdate) s of
              (r, s1) \<Rightarrow> (r, [Update cid propertiesToUpdate], s1)))"

section \<open>The webhook endpoints\<close>

text \<open>
  \<open>if (contactInfo.f && !hubspotContact.properties?.p?.value) propertiesToUpdate.p = ...\<close>
\<close>

definition fill_gap :: "string \<Rightarrow> jsval \<Rightarrow> jsval \<Rightarrow> (string \<times> jsval) list" where
  "fill_gap p v props =
     (if truthy v \<and> \<not> truthy (js_opt (js_opt props p) ''value'') then [(p, v)] else [])"

definition fill_gaps :: "contact_info \<Rightarrow> hubspot_contact \<Rightarrow> (string \<times> jsval) list" where
  "fill_gaps contactInfo hubspotContact =
     fill_gap ''firstname'' (firstName contactInfo) (properties hubspotContact)
     @ fill_gap ''lastname'' (lastName contactInfo) (properties hubspotContact)
     @ fill_gap ''phone'' (phone contactInfo) (properties hubspotContact)
     @ fill_gap ''company'' (company contactInfo) (properties hubspotContact)"

text \<open>The response of a handler's \<open>catch\<close>.\<close>

definition server_error :: "runtime \<Rightarrow> js_error \<Rightarrow> http_response" where
  "server_error rt err =
     \<lparr>status = 500,
      json = JObj [(''error'', JStr ''Webhook processing failed''),
                   (''message'', JStr (error_message rt err))]\<rparr>"

text \<open>
  An exception thrown outside the handler's \<open>try\<close> leaves the handler; the framework's
  error handling answers 500, and the handler writes no JSON.
\<close>

definition framework_error :: http_response where
  "framework_error = \<lparr>status = 500, json = JUndefined\<rparr>"

definition unauthorized :: http_response where
  "unauthorized =
     \<lparr>status = 401, json = JObj [(''error'', JStr ''Unauthorized: Invalid signature'')]\<rparr>"

definition object_keys :: "(string \<times> jsval) list \<Rightarrow> jsval" where
  "object_keys kvs = JArr (map (\<lambda>kv. JStr (fst kv)) kvs)"

subsection \<open>\<open>POST /webhook/salesgodscrm\<close>\<close>

definition sgcrm_contactEmail :: "jsval \<Rightarrow> jsval" where
  "sgcrm_contactEmail b =
     js_or (js_or (js_get b ''email'') (js_opt (js_get b ''contact'') ''email''))
           (js_opt (js_get b ''data'') ''email'')"

definition sgcrm_field :: "jsval \<Rightarrow> string \<Rightarrow> jsval" where
  "sgcrm_field b k =
     js_or (js_or (js_get b k) (js_opt (js_get b ''contact'') k)) (js_opt (js_get b ''data'') k)"

definition sgcrm_contactInfo :: "jsval \<Rightarrow> contact_info" where
  "sgcrm_contactInfo b =
     \<lparr>firstName = sgcrm_field b ''firstName'',
      lastName = sgcrm_field b ''lastName'',
      phone = sgcrm_field b ''phoneNumber'',
      company = sgcrm_field b ''company''\<rparr>"

text \<open>
  The log line \<open>Processing ${event || 'contact'} for ${contactEmail}\<close> converts both
  values to strings.
\<close>

definition sgcrm_loggable :: "jsval \<Rightarrow> bool" where
  "sgcrm_loggable b =
     (js_to_string_ok (js_or (js_get b ''event'') (JStr ''contact''))
      \<and> js_to_string_ok (sgcrm_contactEmail b))"

definition sgcrm_propertiesToUpdate ::
  "contact_info \<Rightarrow> hubspot_contact \<Rightarrow> jsval \<Rightarrow> (string \<times> jsval) list" where
  "sgcrm_propertiesToUpdate contactInfo hubspotContact sgcrmId =
     [(''source_system'', JStr ''SGCRM'')]
     @ fill_gaps contactInfo hubspotContact
     @ (if truthy sgcrmId then [(''salesgodcrm_contact_id'', sgcrmId)] else [])"

definition sgcrm_success ::
  "string \<Rightarrow> jsval \<Rightarrow> jsval \<Rightarrow> hubspot_contact \<Rightarrow> (string \<times> jsval) list \<Rightarrow> http_response" where
  "sgcrm_success now sgcrmId contactEmail hubspotContact propertiesToUpdate =
     (let auditLog = JObj
            [(''timestamp'', JStr now),
             (''sgcrm_id'', sgcrmId),
             (''hubspot_contact_id'', contactId hubspotContact),
             (''email'', contactEmail),
             (''action'', JStr (if found hubspotContact then ''updated_existing''
                                else ''created_new'')),
             (''source_system'', JStr ''SGCRM''),
             (''properties_updated'', object_keys propertiesToUpdate)]
      in \<lparr>status = 200,
          json = JObj
            [(''success'', JBool True),
             (''hubspotContactId'', contactId hubspotContact),
             (''action'', JStr (if found hubspotContact then ''updated'' else ''created'')),
             (''auditLog'', auditLog)]\<rparr>)"

definition webhook_salesgodscrm ::
  "runtime \<Rightarrow> 's hubspotAPI \<Rightarrow> string \<Rightarrow> request \<Rightarrow> 's
     \<Rightarrow> http_response \<times> crm_call list \<times> 's" where
  "webhook_salesgodscrm rt api now req s =
     (case verifyWebhookSignature rt req of
        Inl err \<Rightarrow> (server_error rt err, [], s)
      | Inr False \<Rightarrow> (unauthorized, [], s)
      | Inr True \<Rightarrow>
          if nullish (body req)
          then (server_error rt (CannotDestructure (body req)), [], s)
          else
            let sgcrmId = js_get (body req) ''id'';
                contactEmail = sgcrm_contactEmail (body req)
            in if \<not> truthy contactEmail
               then (\<lparr>status = 400,
                      json = JObj [(''error'', JStr ''Missing email in webhook payload''),
                                   (''payload'', body req)]\<rparr>, [], s)
               else if \<not> sgcrm_loggable (body req)
               then (server_error rt CannotConvertToPrimitive, [], s)
               else
                 let contactInfo = sgcrm_contactInfo (body req) in
                 case getOrCreateHubSpotContact api contactEmail contactInfo s of
                   (Inl err, calls1, s1) \<Rightarrow> (server_error rt err, calls1, s1)
                 | (Inr hubspotContact, calls1, s1) \<Rightarrow>
                     (let propertiesToUpdate =
                            sgcrm_propertiesToUpdate contactInfo hubspotContact sgcrmId
                      in case updateHubSpotContact api (contactId hubspotContact)
                                propertiesToUpdate s1 of
                           (Inl err, calls2, s2) \<Rightarrow>
                             (server_error rt err, calls1 @ calls2, s2)
                         | (Inr _, calls2, s2) \<Rightarrow>
                             (sgcrm_success now sgcrmId contactEmail hubspotContact
                                propertiesToUpdate,
                              calls1 @ calls2, s2)))"

subsection \<open>\<open>POST /webhook/smartlead\<close>\<close>

definition smartlead_contactEmail :: "jsval \<Rightarrow> jsval" where
  "smartlead_contactEmail b = js_or (js_get b ''to_email'') (js_get b ''sl_lead_email'')"

text \<open>
  The log line \<open>Processing Smartlead ${event_type || 'event'} for ${contactEmail}\<close>.
\<close>

definition smartlead_loggable :: "jsval \<Rightarrow> bool" where
  "smartlead_loggable b =
     (js_to_string_ok (js_or (js_get b ''event_type'') (JStr ''event''))
      \<and> js_to_string_ok (smartlead_contactEmail b))"

text \<open>
  \<open>to_name ? to_name.split(' ') : []\<close>: a truthy \<open>to_name\<close> that is not a string has no
  \<open>split\<close> method, and the call throws.
\<close>

definition smartlead_nameParts :: "jsval \<Rightarrow> (string list) thrown" where
  "smartlead_nameParts to_name =
     (if truthy to_name
      then (case to_name of
              JStr n \<Rightarrow> Inr (split_on CHR '' '' n)
            | _ \<Rightarrow> Inl (NotAFunction ''to_name.split''))
      else Inr [])"

definition smartlead_contactInfo :: "string list \<Rightarrow> contact_info" where
  "smartlead_contactInfo nameParts =
     \<lparr>firstName = js_or (case nameParts of [] \<Rightarrow> JUndefined | w # _ \<Rightarrow> JStr w) JNull,
      lastName = js_or (JStr (join_with '' '' (drop 1 nameParts))) JNull,
      phone = JNull,
      company = JNull\<rparr>"

definition smartlead_propertiesToUpdate ::
  "contact_info \<Rightarrow> hubspot_contact \<Rightarrow> (string \<times> jsval) list" where
  "smartlead_propertiesToUpdate contactInfo hubspotContact =
     [(''source_system'', JStr ''Smartlead Email Campaign'')]
     @ fill_gaps contactInfo hubspotContact"

definition smartlead_success ::
  "string \<Rightarrow> jsval \<Rightarrow> jsval \<Rightarrow> hubspot_contact \<Rightarrow> (string \<times> jsval) list \<Rightarrow> http_response" where
  "smartlead_success now b contactEmail hubspotContact propertiesToUpdate =
     (let auditLog = JObj
            [(''timestamp'', JStr now),
             (''smartlead_lead_id'', js_get b ''sl_email_lead_id''),
             (''smartlead_campaign'', js_get b ''campaign_name''),
             (''event_type'', js_get b ''event_type''),
             (''hubspot_contact_id'', contactId hubspotContact),
             (''email'', contactEmail),
             (''action'', JStr (if found hubspotContact then ''updated_existing''
                                else ''created_new'')),
             (''source_system'', JStr ''Smartlead''),
             (''properties_updated'', object_keys propertiesToUpdate)]
      in \<lparr>status = 200,
          json = JObj
            [(''success'', JBool True),
             (''hubspotContactId'', contactId hubspotContact),
             (''action'', JStr (if found hubspotContact then ''updated'' else ''created'')),
             (''auditLog'', auditLog)]\<rparr>)"

text \<open>
  \<open>Object.keys(req.body)\<close> of a body that is neither \<open>null\<close> nor \<open>undefined\<close>: an
  array has its indices as keys, a string, number or boolean none that body-parser could
  have produced.
\<close>

fun decimal :: "nat \<Rightarrow> string" where
  "decimal n =
     (if n < 10 then [char_of (48 + n)]
      else decimal (n div 10) @ [char_of (48 + n mod 10)])"

fun body_keys :: "jsval \<Rightarrow> jsval" where
  "body_keys (JObj kvs) = object_keys kvs"
| "body_keys (JArr xs) = JArr (map (\<lambda>i. JStr (decimal i)) [0 ..< length xs])"
| "body_keys v = JArr []"

text \<open>
  The handler logs \<open>Object.keys(req.body)\<close> before its \<open>try\<close> and before the signature
  gate: on a body that is \<open>undefined\<close> the exception leaves the handler.
\<close>

definition webhook_smartlead ::
  "runtime \<Rightarrow> 's hubspotAPI \<Rightarrow> string \<Rightarrow> request \<Rightarrow> 's
     \<Rightarrow> http_response \<times> crm_call list \<times> 's" where
  "webhook_smartlead rt api now req s =
     (if nullish (body req) then (framework_error, [], s)
      else
        case verifyWebhookSignature rt req of
          Inl err \<Rightarrow> (server_error rt err, [], s)
        | Inr False \<Rightarrow> (unauthorized, [], s)
        | Inr True \<Rightarrow>
            let contactEmail = smartlead_contactEmail (body req)
            in if \<not> truthy contactEmail
               then (\<lparr>status = 400,
                      json = JObj [(''error'', JStr ''Missing email in webhook payload''),
                                   (''payload'', body req),
                                   (''availableFields'', body_keys (body req))]\<rparr>, [], s)
               else if \<not> smartlead_loggable (body req)
               then (server_error rt CannotConvertToPrimitive, [], s)
               else
                 case smartlead_nameParts (js_get (body req) ''to_name'') of
                   Inl err \<Rightarrow> (server_error rt err, [], s)
                 | Inr nameParts \<Rightarrow>
                     (let contactInfo = smartlead_contactInfo nameParts in
                      case getOrCreateHubSpotContact api contactEmail contactInfo s of
                        (Inl err, calls1, s1) \<Rightarrow> (server_error rt err, calls1, s1)
                      | (Inr hubspotContact, calls1, s1) \<Rightarrow>
                          (let propertiesToUpdate =
                                 smartlead_propertiesToUpdate contactInfo hubspotContact
                           in case updateHubSpotContact api (contactId hubspotContact)
                                     propertiesToUpdate s1 of
                                (Inl err, calls2, s2) \<Rightarrow>
                                  (server_error rt err, calls1 @ calls2, s2)
                              | (Inr _, calls2, s2) \<Rightarrow>
                                  (smartlead_success now (body req) contactEmail
                                     hubspotContact propertiesToUpdate,
                                   calls1 @ calls2, s2))))"

subsection \<open>Routing\<close>

text \<open>The path of the request selects the handler; the label is the handler's constant.\<close>

datatype endpoint = SalesGodCRM | Smartlead

fun webhook ::
  "endpoint \<Rightarrow> runtime \<Rightarrow> 's hubspotAPI \<Rightarrow> string \<Rightarrow> request \<Rightarrow> 's
     \<Rightarrow> http_response \<times> crm_call list \<times> 's" where
  "webhook SalesGodCRM = webhook_salesgodscrm"
| "webhook Smartlead = webhook_smartlead"

fun source_system_label :: "endpoint \<Rightarrow> string" where
  "source_system_label SalesGodCRM = ''SGCRM''"
| "source_system_label Smartlead = ''Smartlead Email Campaign''"

text \<open>The three components of a handler run.\<close>

definition response_of :: "http_response \<times> crm_call list \<times> 's \<Rightarrow> http_response" where
  "response_of run = fst run"

definition calls_of :: "http_response \<times> crm_call list \<times> 's \<Rightarrow> crm_call list" where
  "calls_of run = fst (snd run)"

definition state_of :: "http_response \<times> crm_call list \<times> 's \<Rightarrow> 's" where
  "state_of run = snd (snd run)"

text \<open>
  The candidates of the email fallback chain, in order:
  \<open>email || contact?.email || data?.email\<close> and \<open>to_email || sl_lead_email\<close>.
\<close>

fun email_candidates :: "endpoint \<Rightarrow> jsval \<Rightarrow> jsval list" where
  "email_candidates SalesGodCRM b =
     [js_get b ''email'', js_opt (js_get b ''contact'') ''email'',
      js_opt (js_get b ''data'') ''email'']"
| "email_candidates Smartlead b = [js_get b ''to_email'', js_get b ''sl_lead_email'']"

fun contactEmail_of :: "endpoint \<Rightarrow> jsval \<Rightarrow> jsval" where
  "contactEmail_of SalesGodCRM = sgcrm_contactEmail"
| "contactEmail_of Smartlead = smartlead_contactEmail"

fun loggable :: "endpoint \<Rightarrow> jsval \<Rightarrow> bool" where
  "loggable SalesGodCRM = sgcrm_loggable"
| "loggable Smartlead = smartlead_loggable"

text \<open>
  A request gets to the resolution of its contact when it passes the gate, has a body and
  an email, and its log line can be written.
\<close>

definition admitted :: "endpoint \<Rightarrow> runtime \<Rightarrow> request \<Rightarrow> bool" where
  "admitted ep rt req =
     (verifyWebhookSignature rt req = Inr True \<and> \<not> nullish (body req)
      \<and> truthy (contactEmail_of ep (body req)) \<and> loggable ep (body req))"

text \<open>
  The contact info and the patch of either endpoint, as the handlers compute them after the
  email check.
\<close>

fun contactInfo_of :: "endpoint \<Rightarrow> jsval \<Rightarrow> contact_info thrown" where
  "contactInfo_of SalesGodCRM b = Inr (sgcrm_contactInfo b)"
| "contactInfo_of Smartlead b =
     (case smartlead_nameParts (js_get b ''to_name'') of
        Inl err \<Rightarrow> Inl err
      | Inr nameParts \<Rightarrow> Inr (smartlead_contactInfo nameParts))"

fun propertiesToUpdate_of ::
  "endpoint \<Rightarrow> jsval \<Rightarrow> contact_info \<Rightarrow> hubspot_contact \<Rightarrow> (string \<times> jsval) list" where
  "propertiesToUpdate_of SalesGodCRM b ci hc = sgcrm_propertiesToUpdate ci hc (js_get b ''id'')"
| "propertiesToUpdate_of Smartlead b ci hc = smartlead_propertiesToUpdate ci hc"

text \<open>The four fields of the intent, each with the CRM property it fills.\<close>

definition intent_fields :: "contact_info \<Rightarrow> (string \<times> jsval) list" where
  "intent_fields ci =
     [(''firstname'', firstName ci), (''lastname'', lastName ci),
      (''phone'', phone ci), (''company'', company ci)]"

subsection \<open>The name split, in the words of the spec\<close>

text \<open>
  The spec: the full name is split on the first space; the first token is the first name,
  the remaining tokens joined by a space are the last name.
\<close>

definition spec_first_name :: "string \<Rightarrow> string" where
  "spec_first_name n = takeWhile (\<lambda>c. c \<noteq> CHR '' '') n"

definition spec_last_name :: "string \<Rightarrow> string" where
  "spec_last_name n = drop 1 (dropWhile (\<lambda>c. c \<noteq> CHR '' '') n)"

section \<open>A reference CRM\<close>

text \<open>
  Modelled from the spec: the remote CRM (HubSpot) is an external service, absent from the
  repository. This reference model follows the spec's sections 3, 4.2 and 6: contacts are
  found by exact match on the property \<open>email\<close>, the most recently created first, at
  most one; a created contact gets a fresh id and the property map it was created with; an
  update sets the given properties of the contact with that id. The parameter \<open>render\<close>
  is how a response shows a stored property value: \<open>wrapped\<close> is the spec's
  RemoteContact (property name to an object with a \<open>value\<close>), \<open>flat\<close> shows the value
  itself, as the version 3 of the API does.
\<close>

type_synonym crm_store = "(nat \<times> (string \<times> jsval) list) list"

definition wrapped :: "jsval \<Rightarrow> jsval" where
  "wrapped v = JObj [(''value'', v)]"

definition flat :: "jsval \<Rightarrow> jsval" where
  "flat v = v"

definition render_contact :: "(jsval \<Rightarrow> jsval) \<Rightarrow> nat \<times> (string \<times> jsval) list \<Rightarrow> jsval" where
  "render_contact render row =
     JObj [(''id'', JNum (of_nat (fst row))),
           (''properties'', JObj (map (\<lambda>kv. (fst kv, render (snd kv))) (snd row)))]"

text \<open>
  Modelled from the spec: the search by email, an exact match on the property \<open>email\<close>,
  limit 1, the most recently created contact first.
\<close>

definition crm_search :: "(jsval \<Rightarrow> jsval) \<Rightarrow> jsval \<Rightarrow> crm_store \<Rightarrow> (jsval list) thrown \<times> crm_store" where
  "crm_search render email store =
     (Inr (map (render_contact render)
             (take 1 (rev (filter (\<lambda>row. map_of (snd row) ''email'' = Some email) store)))),
      store)"

text \<open>
  Modelled from the spec: the creation of a contact from a property map; the response has
  the new id and the newly created property map.
\<close>

fun crm_create :: "(jsval \<Rightarrow> jsval) \<Rightarrow> jsval \<Rightarrow> crm_store \<Rightarrow> jsval thrown \<times> crm_store" where
  "crm_create render (JObj props) store =
     (let row = (Suc (length store), props)
      in (Inr (render_contact render row), store @ [row]))"
| "crm_create render v store =
     (Inl (RequestFailed ''Request failed with status code 400''), store)"

text \<open>
  Modelled from the spec: the update of the properties of the contact with the given id;
  a property that is not in the patch keeps its value.
\<close>

fun set_properties :: "(string \<times> jsval) list \<Rightarrow> (string \<times> jsval) list \<Rightarrow> (string \<times> jsval) list" where
  "set_properties [] props = props"
| "set_properties ((k, v) # kvs) props = set_properties kvs (AList.update k v props)"

definition row_index :: "jsval \<Rightarrow> crm_store \<Rightarrow> nat option" where
  "row_index cid store =
     (case cid of
        JNum q \<Rightarrow>
          (if 0 < q \<and> q = of_int \<lfloor>q\<rfloor> \<and> nat \<lfloor>q\<rfloor> \<le> length store
           then Some (nat \<lfloor>q\<rfloor> - 1) else None)
      | _ \<Rightarrow> None)"

fun crm_update ::
  "(jsval \<Rightarrow> jsval) \<Rightarrow> jsval \<Rightarrow> jsval \<Rightarrow> crm_store \<Rightarrow> jsval thrown \<times> crm_store" where
  "crm_update render cid (JObj kvs) store =
     (case row_index cid store of
        Some i \<Rightarrow>
          (let row = (Suc i, set_properties kvs (snd (store ! i)))
           in (Inr (render_contact render row), store[i := row]))
      | None \<Rightarrow> (Inl (RequestFailed ''Request failed with status code 404''), store))"
| "crm_update render cid v store =
     (Inl (RequestFailed ''Request failed with status code 400''), store)"

definition reference_crm :: "(jsval \<Rightarrow> jsval) \<Rightarrow> crm_store hubspotAPI" where
  "reference_crm render =
     \<lparr>post_contacts_search = crm_search render,
      post_contacts = crm_create render,
      patch_contacts = crm_update render\<rparr>"

text \<open>An email is previously unseen when no stored contact has it.\<close>

definition unseen :: "jsval \<Rightarrow> crm_store \<Rightarrow> bool" where
  "unseen email store = list_all (\<lambda>row. map_of (snd row) ''email'' \<noteq> Some email) store"

section \<open>Example runs\<close>

text \<open>The message texts of Node for the exceptions of the model.\<close>

definition node_messages :: "js_error \<Rightarrow> string" where
  \<open>node_messages err =
     (case err of
        CannotRead v k \<Rightarrow>
          ''Cannot read properties of '' @ (if v = JNull then ''null'' else ''undefined'')
          @ '' (reading '' @ [CHR 0x27] @ k @ [CHR 0x27] @ '')''
      | CannotDestructure v \<Rightarrow>
          ''Cannot destructure property 'event' of 'req.body' as it is ''
          @ (if v = JNull then ''null'' else ''undefined'') @ ''.''
      | NotAFunction f \<Rightarrow> f @ '' is not a function''
      | CannotConvertToPrimitive \<Rightarrow> ''Cannot convert object to primitive value''
      | InvalidHmacData \<Rightarrow>
          ''The "data" argument must be of type string or an instance of Buffer, ''
          @ ''TypedArray, or DataView. Received undefined''
      | CannotConvertToObject \<Rightarrow> ''Cannot convert undefined or null to object''
      | RequestFailed m \<Rightarrow> m)\<close>

text \<open>
  The platform functions at the arguments of the examples: the serialisation of the body of
  the spec's example, and the hex HMAC-SHA256 digests under the key \<open>s3cret\<close> of that
  serialisation and of the same JSON written with a space after the colon. Elsewhere the
  tables hold a placeholder that no example reads.
\<close>

definition example_stringify :: "jsval \<Rightarrow> string" where
  \<open>example_stringify v =
     (if v = JObj [(''email'', JStr ''a@b.com'')] then ''{"email":"a@b.com"}'' else [])\<close>

definition example_hmac :: "string \<Rightarrow> string \<Rightarrow> string" where
  \<open>example_hmac key message =
     (if key = ''s3cret'' \<and> message = ''{"email":"a@b.com"}''
      then ''f1ff66e5f412e0f1539594eff2ac553df37e5a2dae39a729b94717ce97eba2d4''
      else if key = ''s3cret'' \<and> message = ''{"email": "a@b.com"}''
      then ''e570b5a3ef47f09491928fbdcb9a1f66990a558797d9a07ec937cb12f5c8de8c''
      else replicate 64 CHR ''0'')\<close>

text \<open>A runtime whose secret is unset, and one with the secret of the spec's example.\<close>

definition open_runtime :: runtime where
  "open_runtime =
     \<lparr>WEBHOOK_SECRET = None,
      hmac_sha256_hex = example_hmac,
      JSON_stringify = example_stringify,
      error_message = node_messages\<rparr>"

definition signed_runtime :: runtime where
  "signed_runtime =
     \<lparr>WEBHOOK_SECRET = Some ''s3cret'',
      hmac_sha256_hex = example_hmac,
      JSON_stringify = example_stringify,
      error_message = node_messages\<rparr>"

text \<open>A store that holds one contact whose first name is set, and an event for its email.\<close>

definition store_ann :: crm_store where
  "store_ann = [(1, [(''email'', JStr ''a@b.com''), (''firstname'', JStr ''Ann'')])]"

definition req_bob :: request where
  \<open>req_bob = \<lparr>x_webhook_signature = None,
              raw_body = ''{"email":"a@b.com","firstName":"Bob","lastName":"Lee"}'',
              body = JObj [(''email'', JStr ''a@b.com''), (''firstName'', JStr ''Bob''),
                           (''lastName'', JStr ''Lee'')]\<rparr>\<close>

text \<open>
  The body of the spec's example: signed as the code expects, with a header that is no
  digest, and written with a space and signed over these bytes.
\<close>

definition req_signed :: request where
  \<open>req_signed =
     \<lparr>x_webhook_signature =
        Some ''f1ff66e5f412e0f1539594eff2ac553df37e5a2dae39a729b94717ce97eba2d4'',
      raw_body = ''{"email":"a@b.com"}'',
      body = JObj [(''email'', JStr ''a@b.com'')]\<rparr>\<close>

definition req_forged :: request where
  \<open>req_forged = \<lparr>x_webhook_signature = Some ''deadbeef'',
                 raw_body = ''{"email":"a@b.com"}'',
                 body = JObj [(''email'', JStr ''a@b.com'')]\<rparr>\<close>

definition req_signed_raw :: request where
  \<open>req_signed_raw =
     \<lparr>x_webhook_signature =
        Some ''e570b5a3ef47f09491928fbdcb9a1f66990a558797d9a07ec937cb12f5c8de8c'',
      raw_body = ''{"email": "a@b.com"}'',
      body = JObj [(''email'', JStr ''a@b.com'')]\<rparr>\<close>

text \<open>A request with a signature header whose body was not parsed.\<close>

definition req_unparsed :: request where
  "req_unparsed = \<lparr>x_webhook_signature = Some ''deadbeef'', raw_body = [],
                   body = JUndefined\<rparr>"

text \<open>A Smartlead event with a full name.\<close>

definition req_jane :: request where
  \<open>req_jane =
     \<lparr>x_webhook_signature = None,
      raw_body = ''{"to_email":"jane@example.com","to_name":"Jane Mary Doe",''
                 @ ''"event_type":"EMAIL_SENT"}'',
      body = JObj [(''to_email'', JStr ''jane@example.com''),
                   (''to_name'', JStr ''Jane Mary Doe''),
                   (''event_type'', JStr ''EMAIL_SENT'')]\<rparr>\<close>

text \<open>An event without an email: the empty string, and a null contact.\<close>

definition req_no_email :: request where
  \<open>req_no_email =
     \<lparr>x_webhook_signature = None,
      raw_body = ''{"event":"contact.created","email":"","contact":null,"firstName":"Test"}'',
      body = JObj [(''event'', JStr ''contact.created''), (''email'', JStr []),
                   (''contact'', JNull), (''firstName'', JStr ''Test'')]\<rparr>\<close>

text \<open>An event whose email is a number.\<close>

definition req_num :: request where
  \<open>req_num = \<lparr>x_webhook_signature = None, raw_body = ''{"email":42}'',
              body = JObj [(''email'', JNum 42)]\<rparr>\<close>

text \<open>The first payload of \<open>test-webhook.js\<close>, and what it asks for.\<close>

definition req_test_lead :: request where
  \<open>req_test_lead =
     \<lparr>x_webhook_signature = None,
      raw_body = ''{"event":"contact.created","data":{"id":"sgcrm_1",''
                 @ ''"email":"test.lead@example.com","firstName":"Test","lastName":"Lead",''
                 @ ''"phoneNumber":"+1-555-0123","company":"Test Company"},''
                 @ ''"timestamp":"2024-05-01T10:00:00.000Z"}'',
      body = JObj [(''event'', JStr ''contact.created''),
                   (''data'', JObj [(''id'', JStr ''sgcrm_1''),
                                    (''email'', JStr ''test.lead@example.com''),
                                    (''firstName'', JStr ''Test''),
                                    (''lastName'', JStr ''Lead''),
                                    (''phoneNumber'', JStr ''+1-555-0123''),
                                    (''company'', JStr ''Test Company'')]),
                   (''timestamp'', JStr ''2024-05-01T10:00:00.000Z'')]\<rparr>\<close>


definition lead_properties :: "(string \<times> jsval) list" where
  "lead_properties =
     [(''email'', JStr ''test.lead@example.com''), (''source_system'', JStr ''SGCRM''),
      (''firstname'', JStr ''Test''), (''lastname'', JStr ''Lead''),
      (''phone'', JStr ''+1-555-0123''), (''company'', JStr ''Test Company'')]"

text \<open>An event whose \<open>event\<close> has an own property \<open>toString\<close>.\<close>

definition req_unloggable :: request where
  \<open>req_unloggable =
     \<lparr>x_webhook_signature = None,
      raw_body = ''{"email":"new@x.com","event":{"toString":null}}'',
      body = JObj [(''email'', JStr ''new@x.com''),
                   (''event'', JObj [(''toString'', JNull)])]\<rparr>\<close>

section \<open>The trace of a handler run\<close>

lemma getOrCreate_no_update:
  "getOrCreateHubSpotContact api e ci s = (r, calls, s1) \<Longrightarrow> Update c p \<notin> set calls"
  by (auto simp: getOrCreateHubSpotContact_def Let_def
           split: prod.splits sum.splits list.splits if_splits)

lemma updateHubSpotContact_eq:
  "updateHubSpotContact api c p s =
     (if js_to_string_ok c
      then (fst (patch_contacts api c (JObj p) s), [Update c p],
            snd (patch_contacts api c (JObj p) s))
      else (Inl CannotConvertToPrimitive, [], s))"
  by (simp add: updateHubSpotContact_def split: prod.splits)

lemma status_simps:
  "status unauthorized = 401"
  "status framework_error = 500"
  "status (server_error rt err) = 500"
  "status (sgcrm_success now sid e hc p) = 200"
  "status (smartlead_success now b e hc p) = 200"
  by (simp_all add: unauthorized_def framework_error_def server_error_def sgcrm_success_def
        smartlead_success_def Let_def)

text \<open>The outcomes of a run of the SalesGodCRM handler, in the order of the code.\<close>

lemma sgcrm_cases:
  fixes rt api now req s
  defines "run \<equiv> webhook_salesgodscrm rt api now req s"
  defines "e \<equiv> sgcrm_contactEmail (body req)"
  defines "ci \<equiv> sgcrm_contactInfo (body req)"
  defines "sid \<equiv> js_get (body req) ''id''"
  obtains
    (gate_threw) err where "verifyWebhookSignature rt req = Inl err"
      "run = (server_error rt err, [], s)"
  | (rejected) "verifyWebhookSignature rt req = Inr False" "run = (unauthorized, [], s)"
  | (no_body) "verifyWebhookSignature rt req = Inr True" "nullish (body req)"
      "run = (server_error rt (CannotDestructure (body req)), [], s)"
  | (no_email) "verifyWebhookSignature rt req = Inr True" "\<not> nullish (body req)"
      "\<not> truthy e"
      "status (response_of run) = 400" "calls_of run = []" "state_of run = s"
  | (not_loggable) "verifyWebhookSignature rt req = Inr True" "\<not> nullish (body req)"
      "truthy e" "\<not> sgcrm_loggable (body req)"
      "run = (server_error rt CannotConvertToPrimitive, [], s)"
  | (unresolved) err calls1 s1 where
      "admitted SalesGodCRM rt req"
      "getOrCreateHubSpotContact api e ci s = (Inl err, calls1, s1)"
      "run = (server_error rt err, calls1, s1)"
  | (no_url) hc calls1 s1 where
      "admitted SalesGodCRM rt req"
      "getOrCreateHubSpotContact api e ci s = (Inr hc, calls1, s1)"
      "\<not> js_to_string_ok (contactId hc)"
      "run = (server_error rt CannotConvertToPrimitive, calls1, s1)"
  | (not_applied) hc calls1 s1 err s2 where
      "admitted SalesGodCRM rt req"
      "getOrCreateHubSpotContact api e ci s = (Inr hc, calls1, s1)"
      "js_to_string_ok (contactId hc)"
      "patch_contacts api (contactId hc) (JObj (sgcrm_propertiesToUpdate ci hc sid)) s1
         = (Inl err, s2)"
      "run = (server_error rt err,
              calls1 @ [Update (contactId hc) (sgcrm_propertiesToUpdate ci hc sid)], s2)"
  | (synced) hc calls1 s1 d s2 where
      "admitted SalesGodCRM rt req"
      "getOrCreateHubSpotContact api e ci s = (Inr hc, calls1, s1)"
      "js_to_string_ok (contactId hc)"
      "patch_contacts api (contactId hc) (JObj (sgcrm_propertiesToUpdate ci hc sid)) s1
         = (Inr d, s2)"
      "run = (sgcrm_success now sid e hc (sgcrm_propertiesToUpdate ci hc sid),
              calls1 @ [Update (contactId hc) (sgcrm_propertiesToUpdate ci hc sid)], s2)"
proof (cases "verifyWebhookSignature rt req")
  case (Inl err)
  then show ?thesis using gate_threw by (simp add: run_def webhook_salesgodscrm_def)
next
  case (Inr ok)
  show ?thesis
  proof (cases ok)
    case False
    with Inr show ?thesis using rejected by (simp add: run_def webhook_salesgodscrm_def)
  next
    case True
    with Inr have v: "verifyWebhookSignature rt req = Inr True" by simp
    show ?thesis
    proof (cases "nullish (body req)")
      case True
      with v show ?thesis using no_body by (simp add: run_def webhook_salesgodscrm_def)
    next
      case nb: False
      show ?thesis
      proof (cases "truthy e")
        case False
        with v nb show ?thesis using no_email
          by (simp add: run_def webhook_salesgodscrm_def e_def Let_def response_of_def
                calls_of_def state_of_def)
      next
        case te: True
        show ?thesis
        proof (cases "sgcrm_loggable (body req)")
          case False
          with v nb te show ?thesis using not_loggable
            by (simp add: run_def webhook_salesgodscrm_def e_def Let_def)
        next
          case lg: True
          from v nb te lg have adm: "admitted SalesGodCRM rt req"
            by (simp add: admitted_def e_def)
          obtain g calls1 s1 where g: "getOrCreateHubSpotContact api e ci s = (g, calls1, s1)"
            using prod_cases3 by blast
          show ?thesis
          proof (cases g)
            case (Inl err)
            with v nb te lg g show ?thesis using unresolved[OF adm]
              by (simp add: run_def webhook_salesgodscrm_def e_def ci_def Let_def)
          next
            case hc: (Inr hc)
            show ?thesis
            proof (cases "js_to_string_ok (contactId hc)")
              case False
              with v nb te lg g hc show ?thesis using no_url[OF adm, of hc calls1 s1]
                by (simp add: run_def webhook_salesgodscrm_def e_def ci_def sid_def Let_def
                      updateHubSpotContact_eq)
            next
              case url: True
              obtain u s2 where
                u: "patch_contacts api (contactId hc)
                      (JObj (sgcrm_propertiesToUpdate ci hc sid)) s1 = (u, s2)"
                by fastforce
              show ?thesis
              proof (cases u)
                case (Inl err)
                with v nb te lg g hc url u show ?thesis
                  using not_applied[OF adm, of hc calls1 s1 err s2]
                  by (simp add: run_def webhook_salesgodscrm_def e_def ci_def sid_def Let_def
                        updateHubSpotContact_eq)
              next
                case (Inr d)
                with v nb te lg g hc url u show ?thesis
                  using synced[OF adm, of hc calls1 s1 d s2]
                  by (simp add: run_def webhook_salesgodscrm_def e_def ci_def sid_def Let_def
                        updateHubSpotContact_eq)
              qed
            qed
          qed
        qed
      qed
    qed
  qed
qed

text \<open>The outcomes of a run of the Smartlead handler.\<close>

lemma smartlead_cases:
  fixes rt api now req s
  defines "run \<equiv> webhook_smartlead rt api now req s"
  defines "e \<equiv> smartlead_contactEmail (body req)"
  defines "np \<equiv> smartlead_nameParts (js_get (body req) ''to_name'')"
  obtains
    (escaped) "nullish (body req)" "run = (framework_error, [], s)"
  | (gate_threw) err where "\<not> nullish (body req)" "verifyWebhookSignature rt req = Inl err"
      "run = (server_error rt err, [], s)"
  | (rejected) "\<not> nullish (body req)" "verifyWebhookSignature rt req = Inr False"
      "run = (unauthorized, [], s)"
  | (no_email) "verifyWebhookSignature rt req = Inr True" "\<not> nullish (body req)"
      "\<not> truthy e"
      "status (response_of run) = 400" "calls_of run = []" "state_of run = s"
  | (not_loggable) "verifyWebhookSignature rt req = Inr True" "\<not> nullish (body req)"
      "truthy e" "\<not> smartlead_loggable (body req)"
      "run = (server_error rt CannotConvertToPrimitive, [], s)"
  | (bad_name) err where
      "admitted Smartlead rt req" "np = Inl err" "run = (server_error rt err, [], s)"
  | (unresolved) parts err calls1 s1 where
      "admitted Smartlead rt req" "np = Inr parts"
      "getOrCreateHubSpotContact api e (smartlead_contactInfo parts) s = (Inl err, calls1, s1)"
      "run = (server_error rt err, calls1, s1)"
  | (no_url) parts hc calls1 s1 where
      "admitted Smartlead rt req" "np = Inr parts"
      "getOrCreateHubSpotContact api e (smartlead_contactInfo parts) s = (Inr hc, calls1, s1)"
      "\<not> js_to_string_ok (contactId hc)"
      "run = (server_error rt CannotConvertToPrimitive, calls1, s1)"
  | (not_applied) parts hc calls1 s1 err s2 where
      "admitted Smartlead rt req" "np = Inr parts"
      "getOrCreateHubSpotContact api e (smartlead_contactInfo parts) s = (Inr hc, calls1, s1)"
      "js_to_string_ok (contactId hc)"
      "patch_contacts api (contactId hc)
         (JObj (smartlead_propertiesToUpdate (smartlead_contactInfo parts) hc)) s1
         = (Inl err, s2)"
      "run = (server_error rt err,
              calls1 @ [Update (contactId hc)
                 (smartlead_propertiesToUpdate (smartlead_contactInfo parts) hc)], s2)"
  | (synced) parts hc calls1 s1 d s2 where
      "admitted Smartlead rt req" "np = Inr parts"
      "getOrCreateHubSpotContact api e (smartlead_contactInfo parts) s = (Inr hc, calls1, s1)"
      "js_to_string_ok (contactId hc)"
      "patch_contacts api (contactId hc)
         (JObj (smartlead_propertiesToUpdate (smartlead_contactInfo parts) hc)) s1
         = (Inr d, s2)"
      "run = (smartlead_success now (body req) e hc
                (smartlead_propertiesToUpdate (smartlead_contactInfo parts) hc),
              calls1 @ [Update (contactId hc)
                 (smartlead_propertiesToUpdate (smartlead_contactInfo parts) hc)], s2)"
proof (cases "nullish (body req)")
  case True
  then show ?thesis using escaped by (simp add: run_def webhook_smartlead_def)
next
  case nb: False
  show ?thesis
  proof (cases "verifyWebhookSignature rt req")
    case (Inl err)
    with nb show ?thesis using gate_threw by (simp add: run_def webhook_smartlead_def)
  next
    case (Inr ok)
    show ?thesis
    proof (cases ok)
      case False
      with nb Inr show ?thesis using rejected by (simp add: run_def webhook_smartlead_def)
    next
      case True
      with Inr have v: "verifyWebhookSignature rt req = Inr True" by simp
      show ?thesis
      proof (cases "truthy e")
        case False
        with v nb show ?thesis using no_email
          by (simp add: run_def webhook_smartlead_def e_def Let_def response_of_def
                calls_of_def state_of_def)
      next
        case te: True
        show ?thesis
        proof (cases "smartlead_loggable (body req)")
          case False
          with v nb te show ?thesis using not_loggable
            by (simp add: run_def webhook_smartlead_def e_def Let_def)
        next
          case lg: True
          from v nb te lg have adm: "admitted Smartlead rt req"
            by (simp add: admitted_def e_def)
          show ?thesis
          proof (cases np)
            case (Inl err)
            with v nb te lg show ?thesis using bad_name[OF adm]
              by (simp add: run_def webhook_smartlead_def e_def np_def Let_def)
          next
            case parts: (Inr parts)
            obtain g calls1 s1 where
              g: "getOrCreateHubSpotContact api e (smartlead_contactInfo parts) s
                    = (g, calls1, s1)"
              using prod_cases3 by blast
            show ?thesis
            proof (cases g)
              case (Inl err)
              with v nb te lg parts g show ?thesis using unresolved[OF adm]
                by (simp add: run_def webhook_smartlead_def e_def np_def Let_def)
            next
              case hc: (Inr hc)
              show ?thesis
              proof (cases "js_to_string_ok (contactId hc)")
                case False
                with v nb te lg parts g hc show ?thesis
                  using no_url[OF adm, of parts hc calls1 s1]
                  by (simp add: run_def webhook_smartlead_def e_def np_def Let_def
                        updateHubSpotContact_eq)
              next
                case url: True
                obtain u s2 where
                  u: "patch_contacts api (contactId hc)
                        (JObj (smartlead_propertiesToUpdate (smartlead_contactInfo parts) hc))
                        s1 = (u, s2)"
                  by fastforce
                show ?thesis
                proof (cases u)
                  case (Inl err)
                  with v nb te lg parts g hc url u show ?thesis
                    using not_applied[OF adm, of parts hc calls1 s1 err s2]
                    by (simp add: run_def webhook_smartlead_def e_def np_def Let_def
                          updateHubSpotContact_eq)
                next
                  case (Inr d)
                  with v nb te lg parts g hc url u show ?thesis
                    using synced[OF adm, of parts hc calls1 s1 d s2]
                    by (simp add: run_def webhook_smartlead_def e_def np_def Let_def
                          updateHubSpotContact_eq)
                qed
              qed
            qed
          qed
        qed
      qed
    qed
  qed
qed

text \<open>An update call carries the patch computed from the resolved contact.\<close>

lemma sgcrm_update_in_log:
  assumes "Update c p \<in> set (calls_of (webhook_salesgodscrm rt api now req s))"
  shows "\<exists>hc calls1 s1.
           getOrCreateHubSpotContact api (sgcrm_contactEmail (body req))
             (sgcrm_contactInfo (body req)) s = (Inr hc, calls1, s1)
         \<and> c = contactId hc
         \<and> p = sgcrm_propertiesToUpdate (sgcrm_contactInfo (body req)) hc
                 (js_get (body req) ''id'')"
  using assms
  by (cases rule: sgcrm_cases[of rt req api now s])
     (auto simp: calls_of_def dest: getOrCreate_no_update)

lemma smartlead_update_in_log:
  assumes "Update c p \<in> set (calls_of (webhook_smartlead rt api now req s))"
  shows "\<exists>hc calls1 s1 parts.
           smartlead_nameParts (js_get (body req) ''to_name'') = Inr parts
         \<and> getOrCreateHubSpotContact api (smartlead_contactEmail (body req))
             (smartlead_contactInfo parts) s = (Inr hc, calls1, s1)
         \<and> c = contactId hc
         \<and> p = smartlead_propertiesToUpdate (smartlead_contactInfo parts) hc"
  using assms
  by (cases rule: smartlead_cases[of req rt api now s])
     (auto simp: calls_of_def dest: getOrCreate_no_update)


lemma getOrCreate_found_iff:
  assumes "getOrCreateHubSpotContact api e ci s = (Inr hc, calls, s1)"
  shows "(found hc \<longrightarrow> calls = [Search e])
       \<and> (\<not> found hc \<longrightarrow> calls = [Search e, Create (create_properties e ci)])"
  using assms
  by (auto simp: getOrCreateHubSpotContact_def Let_def
           split: prod.splits sum.splits list.splits if_splits)

lemma getOrCreate_create:
  assumes "post_contacts_search api e s = (Inr [], s1)" and "js_to_string_ok e"
    and "post_contacts api (JObj (create_properties e ci)) s1 = (Inr d, s2)"
    and "\<not> nullish d"
  shows "getOrCreateHubSpotContact api e ci s =
           (Inr \<lparr>found = False, contactId = js_get d ''id'',
                 properties = js_get d ''properties''\<rparr>,
            [Search e, Create (create_properties e ci)], s2)"
  using assms by (simp add: getOrCreateHubSpotContact_def js_member_def)

lemma getOrCreate_existing:
  assumes "post_contacts_search api e s = (Inr (r # rs), s1)" and "\<not> nullish r"
  shows "getOrCreateHubSpotContact api e ci s =
           (Inr \<lparr>found = True, contactId = js_get r ''id'',
                 properties = js_get r ''properties''\<rparr>,
            [Search e], s1)"
  using assms by (simp add: getOrCreateHubSpotContact_def js_member_def)

lemma admitted_email_ok:
  "admitted ep rt req \<Longrightarrow> js_to_string_ok (contactEmail_of ep (body req))"
  by (cases ep) (simp_all add: admitted_def sgcrm_loggable_def smartlead_loggable_def)

text \<open>A run that resolved its contact sends the patch and answers by the update's result.\<close>

lemma webhook_resolved:
  assumes "admitted ep rt req"
    and "contactInfo_of ep (body req) = Inr ci"
    and "getOrCreateHubSpotContact api (contactEmail_of ep (body req)) ci s = (Inr hc, calls1, s1)"
    and "js_to_string_ok (contactId hc)"
    and "patch_contacts api (contactId hc)
           (JObj (propertiesToUpdate_of ep (body req) ci hc)) s1 = (u, s2)"
  shows "calls_of (webhook ep rt api now req s)
           = calls1 @ [Update (contactId hc) (propertiesToUpdate_of ep (body req) ci hc)]"
    and "state_of (webhook ep rt api now req s) = s2"
    and "u = Inr d \<Longrightarrow> status (response_of (webhook ep rt api now req s)) = 200"
    and "u = Inr d \<Longrightarrow> js_get (json (response_of (webhook ep rt api now req s))) ''action''
           = JStr (if found hc then ''updated'' else ''created'')"
    and "u = Inl err \<Longrightarrow> status (response_of (webhook ep rt api now req s)) = 500"
proof -
  have "calls_of (webhook ep rt api now req s)
           = calls1 @ [Update (contactId hc) (propertiesToUpdate_of ep (body req) ci hc)]
    \<and> state_of (webhook ep rt api now req s) = s2
    \<and> (u = Inr d \<longrightarrow> status (response_of (webhook ep rt api now req s)) = 200
         \<and> js_get (json (response_of (webhook ep rt api now req s))) ''action''
           = JStr (if found hc then ''updated'' else ''created''))
    \<and> (u = Inl err \<longrightarrow> status (response_of (webhook ep rt api now req s)) = 500)"
  proof (cases ep)
    case SalesGodCRM
    with assms show ?thesis
      by (cases u)
         (simp_all add: admitted_def webhook_salesgodscrm_def Let_def updateHubSpotContact_eq
            calls_of_def state_of_def response_of_def status_simps sgcrm_success_def)
  next
    case Smartlead
    with assms show ?thesis
      by (cases u)
         (auto simp: admitted_def webhook_smartlead_def Let_def updateHubSpotContact_eq
            calls_of_def state_of_def response_of_def status_simps smartlead_success_def
            split: sum.splits)
  qed
  then show "calls_of (webhook ep rt api now req s)
           = calls1 @ [Update (contactId hc) (propertiesToUpdate_of ep (body req) ci hc)]"
    and "state_of (webhook ep rt api now req s) = s2"
    and "u = Inr d \<Longrightarrow> status (response_of (webhook ep rt api now req s)) = 200"
    and "u = Inr d \<Longrightarrow> js_get (json (response_of (webhook ep rt api now req s))) ''action''
           = JStr (if found hc then ''updated'' else ''created'')"
    and "u = Inl err \<Longrightarrow> status (response_of (webhook ep rt api now req s)) = 500"
    by simp_all
qed

lemma unauthorized_only_rejected:
  "status (response_of (webhook ep rt api now req s)) = 401 \<Longrightarrow>
   verifyWebhookSignature rt req = Inr False"
proof (cases ep)
  case SalesGodCRM
  assume "status (response_of (webhook ep rt api now req s)) = 401"
  with SalesGodCRM show ?thesis
    by (cases rule: sgcrm_cases[of rt req api now s])
       (simp_all add: response_of_def status_simps)
next
  case Smartlead
  assume "status (response_of (webhook ep rt api now req s)) = 401"
  with Smartlead show ?thesis
    by (cases rule: smartlead_cases[of req rt api now s])
       (simp_all add: response_of_def status_simps)
qed

lemma rejected_run:
  assumes "verifyWebhookSignature rt req = Inr False" and "\<not> nullish (body req)"
  shows "webhook ep rt api now req s = (unauthorized, [], s)"
  using assms by (cases ep) (simp_all add: webhook_salesgodscrm_def webhook_smartlead_def)

lemma update_in_log:
  assumes "Update c patch \<in> set (calls_of (webhook ep rt api now req s))"
  shows "\<exists>ci hc calls1 s1.
           contactInfo_of ep (body req) = Inr ci
         \<and> getOrCreateHubSpotContact api (contactEmail_of ep (body req)) ci s
             = (Inr hc, calls1, s1)
         \<and> c = contactId hc
         \<and> patch = propertiesToUpdate_of ep (body req) ci hc"
proof (cases ep)
  case SalesGodCRM
  with assms have "Update c patch \<in> set (calls_of (webhook_salesgodscrm rt api now req s))"
    by simp
  from sgcrm_update_in_log[OF this] SalesGodCRM show ?thesis by auto
next
  case Smartlead
  with assms have "Update c patch \<in> set (calls_of (webhook_smartlead rt api now req s))"
    by simp
  from smartlead_update_in_log[OF this] Smartlead show ?thesis by auto
qed

section \<open>The keys of a patch\<close>

lemma smartlead_patch_keys:
  "fst ` set (smartlead_propertiesToUpdate ci hc) \<subseteq>
     {''source_system''} \<union> fst ` set (fill_gaps ci hc)"
  by (auto simp: smartlead_propertiesToUpdate_def)

lemma sgcrm_patch_source_system:
  "map_of (sgcrm_propertiesToUpdate ci hc sid) ''source_system'' = Some (JStr ''SGCRM'')"
  by (simp add: sgcrm_propertiesToUpdate_def)

lemma smartlead_patch_source_system:
  "map_of (smartlead_propertiesToUpdate ci hc) ''source_system''
     = Some (JStr ''Smartlead Email Campaign'')"
  by (simp add: smartlead_propertiesToUpdate_def)

lemma smartlead_fill_gaps_keys:
  "fst ` set (fill_gaps (smartlead_contactInfo parts) hc) \<subseteq> {''firstname'', ''lastname''}"
  by (auto simp: fill_gaps_def fill_gap_def smartlead_contactInfo_def split: if_splits)

lemma contactEmail_truthy:
  "truthy (contactEmail_of ep b) \<longleftrightarrow> (\<exists>c \<in> set (email_candidates ep b). truthy c)"
  by (cases ep) (auto simp: sgcrm_contactEmail_def smartlead_contactEmail_def js_or_def)

lemma intent_field_cases:
  assumes "(k, v) \<in> set (intent_fields ci)"
  obtains "k = ''firstname''" "v = firstName ci"
  | "k = ''lastname''" "v = lastName ci"
  | "k = ''phone''" "v = phone ci"
  | "k = ''company''" "v = company ci"
  using assms by (auto simp: intent_fields_def)

lemma create_properties_field:
  assumes "(k, v) \<in> set (intent_fields ci)" and "truthy v"
  shows "map_of (create_properties e ci) k = Some v"
  using assms(1)
proof (cases rule: intent_field_cases)
  case 1
  with assms(2) show ?thesis by (simp add: create_properties_def spread_if_def)
next
  case 2
  with assms(2) show ?thesis by (simp add: create_properties_def spread_if_def)
next
  case 3
  with assms(2) show ?thesis by (simp add: create_properties_def spread_if_def)
next
  case 4
  with assms(2) show ?thesis by (simp add: create_properties_def spread_if_def)
qed

lemma create_properties_email: "map_of (create_properties e ci) ''email'' = Some e"
  by (simp add: create_properties_def)



lemma patch_source_system:
  "map_of (propertiesToUpdate_of ep b ci hc) ''source_system''
     = Some (JStr (source_system_label ep))"
  by (cases ep) (simp_all add: sgcrm_patch_source_system smartlead_patch_source_system)

lemma fill_gaps_same:
  assumes "\<And>k v. (k, v) \<in> set (intent_fields ci) \<Longrightarrow> truthy v \<Longrightarrow>
             js_opt (properties hc) k = js_opt (properties hc') k"
  shows "fill_gaps ci hc = fill_gaps ci hc'"
proof -
  have "fill_gap k v (properties hc) = fill_gap k v (properties hc')"
    if "(k, v) \<in> set (intent_fields ci)" for k v
    using assms[OF that] by (cases "truthy v") (simp_all add: fill_gap_def)
  then show ?thesis by (simp add: fill_gaps_def intent_fields_def)
qed

lemma patch_same:
  "fill_gaps ci hc = fill_gaps ci hc' \<Longrightarrow>
   propertiesToUpdate_of ep b ci hc = propertiesToUpdate_of ep b ci hc'"
  by (cases ep) (simp_all add: sgcrm_propertiesToUpdate_def smartlead_propertiesToUpdate_def)

lemma fill_gaps_entries:
  "(k, v) \<in> set (fill_gaps ci hc) \<Longrightarrow> (k, v) \<in> set (intent_fields ci) \<and> truthy v"
  by (auto simp: fill_gaps_def fill_gap_def intent_fields_def split: if_splits)

lemma patch_entries:
  assumes "(k, v) \<in> set (propertiesToUpdate_of ep b ci hc)"
  shows "k = ''source_system'' \<and> v = JStr (source_system_label ep)
       \<or> k = ''salesgodcrm_contact_id''
       \<or> (k, v) \<in> set (intent_fields ci) \<and> truthy v"
  using assms fill_gaps_entries[of k v ci hc]
  by (cases ep)
     (auto simp: sgcrm_propertiesToUpdate_def smartlead_propertiesToUpdate_def
           split: if_splits)

lemma intent_fields_functional:
  "(k, v) \<in> set (intent_fields ci) \<Longrightarrow> (k, v') \<in> set (intent_fields ci) \<Longrightarrow> v' = v"
  by (auto simp: intent_fields_def)

lemma intent_fields_not_email:
  "(k, v) \<in> set (intent_fields ci) \<Longrightarrow>
   k \<noteq> ''email'' \<and> k \<noteq> ''source_system'' \<and> k \<noteq> ''salesgodcrm_contact_id''"
  by (auto simp: intent_fields_def)

section \<open>The reference CRM\<close>

lemma reference_crm_simps:
  "post_contacts_search (reference_crm render) = crm_search render"
  "post_contacts (reference_crm render) = crm_create render"
  "patch_contacts (reference_crm render) = crm_update render"
  by (simp_all add: reference_crm_def)

lemma crm_search_unseen:
  "unseen e store \<Longrightarrow> crm_search render e store = (Inr [], store)"
  by (simp add: unseen_def crm_search_def list_all_iff filter_empty_conv)

lemma crm_search_last:
  assumes "unseen e store" and "map_of props ''email'' = Some e"
  shows "crm_search render e (store @ [(i, props)])
           = (Inr [render_contact render (i, props)], store @ [(i, props)])"
proof -
  have "filter (\<lambda>row. map_of (snd row) ''email'' = Some e) store = []"
    using assms(1) by (simp add: unseen_def list_all_iff filter_empty_conv)
  with assms(2) show ?thesis by (simp add: crm_search_def)
qed

lemma row_index_last:
  "row_index (JNum (of_nat (Suc (length store)))) (store @ [row]) = Some (length store)"
  by (simp add: row_index_def del: of_nat_Suc)

lemma map_of_set_properties:
  assumes "map_of props k = Some v" and "\<forall>v'. (k, v') \<in> set kvs \<longrightarrow> v' = v"
  shows "map_of (set_properties kvs props) k = Some v"
  using assms
proof (induction kvs arbitrary: props)
  case Nil
  then show ?case by simp
next
  case (Cons kv kvs)
  obtain k' v' where kv: "kv = (k', v')" by (cases kv)
  have "map_of (AList.update k' v' props) k = Some v"
    using Cons.prems kv by (auto simp: update_conv')
  with Cons.IH[of "AList.update k' v' props"] Cons.prems(2) kv show ?case by simp
qed

lemma render_contact_get:
  "js_get (render_contact render (i, props)) ''id'' = JNum (of_nat i)"
  "js_get (render_contact render (i, props)) ''properties''
     = JObj (map (\<lambda>kv. (fst kv, render (snd kv))) props)"
  "\<not> nullish (render_contact render (i, props))"
  by (simp_all add: render_contact_def)

lemma rendered_property:
  "map_of props k = Some v \<Longrightarrow>
   js_opt (JObj (map (\<lambda>kv. (fst kv, render (snd kv))) props)) k = render v"
  by (induction props) (auto simp: js_opt_def)

section \<open>Splitting a string\<close>

lemma split_on_nonempty: "split_on c s \<noteq> []"
  by (induction s) (auto split: list.splits)

lemma hd_split_on: "hd (split_on c s) = takeWhile (\<lambda>x. x \<noteq> c) s"
  by (induction s) (auto split: list.splits simp: split_on_nonempty)

lemma join_split_on: "join_with [c] (split_on c s) = s"
proof (induction s)
  case Nil
  then show ?case by simp
next
  case (Cons x xs)
  obtain w ws where w: "split_on c xs = w # ws"
    using split_on_nonempty[of c xs] by (cases "split_on c xs") auto
  with Cons show ?case by (cases ws) auto
qed

lemma tl_split_on:
  "join_with [c] (tl (split_on c s)) = drop 1 (dropWhile (\<lambda>x. x \<noteq> c) s)"
proof (induction s)
  case Nil
  then show ?case by simp
next
  case (Cons x xs)
  obtain w ws where w: "split_on c xs = w # ws"
    using split_on_nonempty[of c xs] by (cases "split_on c xs") auto
  show ?case
  proof (cases "x = c")
    case True
    then show ?thesis using join_split_on[of c xs] by simp
  next
    case False
    with Cons w show ?thesis by simp
  qed
qed

section \<open>Fill gaps, never overwrite\<close>




section \<open>Provenance\<close>

text \<open>
  Claim C2. On both endpoints, the patch that the handler computes for a resolved contact
  is non-empty and holds \<open>source_system\<close> with the label of the endpoint, \<open>SGCRM\<close> or
  \<open>Smartlead Email Campaign\<close>, whatever else it holds; so does every patch that a run
  sends to the CRM; and a request that gets to the resolution sends the computed patch in
  its last call, once the contact is resolved with an id that converts to a string.
\<close>

theorem source_system_always:
  "propertiesToUpdate_of ep b ci hc \<noteq> []
   \<and> map_of (propertiesToUpdate_of ep b ci hc) ''source_system''
       = Some (JStr (source_system_label ep))
   \<and> (\<forall>c patch. Update c patch \<in> set (calls_of (webhook ep rt api now req s)) \<longrightarrow>
         patch \<noteq> [] \<and> map_of patch ''source_system'' = Some (JStr (source_system_label ep)))
   \<and> (admitted ep rt req
        \<and> contactInfo_of ep (body req) = Inr ci
        \<and> getOrCreateHubSpotContact api (contactEmail_of ep (body req)) ci s
            = (Inr hc, calls1, s1)
        \<and> js_to_string_ok (contactId hc) \<longrightarrow>
       last (calls_of (webhook ep rt api now req s))
         = Update (contactId hc) (propertiesToUpdate_of ep (body req) ci hc))"
proof -
  have computed: "patch \<noteq> [] \<and> map_of patch ''source_system'' = Some (JStr (source_system_label ep))"
    if "patch = propertiesToUpdate_of ep b' ci' hc'" for patch b' ci' hc'
    using that patch_source_system[of ep b' ci' hc'] by auto
  have sent: "patch \<noteq> [] \<and> map_of patch ''source_system'' = Some (JStr (source_system_label ep))"
    if "Update c patch \<in> set (calls_of (webhook ep rt api now req s))" for c patch
  proof -
    from update_in_log[OF that] obtain ci' hc'
      where "patch = propertiesToUpdate_of ep (body req) ci' hc'" by blast
    then show ?thesis by (rule computed)
  qed
  have reached: "last (calls_of (webhook ep rt api now req s))
                   = Update (contactId hc) (propertiesToUpdate_of ep (body req) ci hc)"
    if "admitted ep rt req" "contactInfo_of ep (body req) = Inr ci"
       "getOrCreateHubSpotContact api (contactEmail_of ep (body req)) ci s
            = (Inr hc, calls1, s1)"
       "js_to_string_ok (contactId hc)"
  proof -
    obtain u s2 where "patch_contacts api (contactId hc)
           (JObj (propertiesToUpdate_of ep (body req) ci hc)) s1 = (u, s2)"
      by fastforce
    from webhook_resolved(1)[OF that this] show ?thesis by simp
  qed
  from computed[OF refl, of b ci hc] sent reached show ?thesis by blast
qed

text \<open>A Smartlead event for a new contact: nothing but the label is patched.\<close>

theorem source_system_always_witness:
  "admitted Smartlead open_runtime req_jane
   \<and> contactInfo_of Smartlead (body req_jane)
       = Inr \<lparr>firstName = JStr ''Jane'', lastName = JStr ''Mary Doe'',
               phone = JNull, company = JNull\<rparr>
   \<and> getOrCreateHubSpotContact (reference_crm wrapped)
         (contactEmail_of Smartlead (body req_jane))
         \<lparr>firstName = JStr ''Jane'', lastName = JStr ''Mary Doe'',
          phone = JNull, company = JNull\<rparr> []
       = (Inr \<lparr>found = False, contactId = JNum 1,
               properties = JObj [(''email'', wrapped (JStr ''jane@example.com'')),
                                  (''source_system'', wrapped (JStr ''SGCRM'')),
                                  (''firstname'', wrapped (JStr ''Jane'')),
                                  (''lastname'', wrapped (JStr ''Mary Doe''))]\<rparr>,
          [Search (JStr ''jane@example.com''),
           Create [(''email'', JStr ''jane@example.com''), (''source_system'', JStr ''SGCRM''),
                   (''firstname'', JStr ''Jane''), (''lastname'', JStr ''Mary Doe'')]],
          [(1, [(''email'', JStr ''jane@example.com''), (''source_system'', JStr ''SGCRM''),
                (''firstname'', JStr ''Jane''), (''lastname'', JStr ''Mary Doe'')])])
   \<and> last (calls_of (webhook Smartlead open_runtime (reference_crm wrapped)
                        ''2024-05-01T10:00:00.000Z'' req_jane []))
       = Update (JNum 1) [(''source_system'', JStr ''Smartlead Email Campaign'')]
   \<and> Update (JNum 1) [(''source_system'', JStr ''Smartlead Email Campaign'')]
       \<in> set (calls_of (webhook Smartlead open_runtime (reference_crm wrapped)
                          ''2024-05-01T10:00:00.000Z'' req_jane []))
   \<and> [(''source_system'', JStr ''Smartlead Email Campaign'')] \<noteq> []
   \<and> map_of [(''source_system'', JStr ''Smartlead Email Campaign'')] ''source_system''
       = Some (JStr (source_system_label Smartlead))"
proof -
  let ?ci = "\<lparr>firstName = JStr ''Jane'', lastName = JStr ''Mary Doe'',
              phone = JNull, company = JNull\<rparr>"
  let ?hc = "\<lparr>found = False, contactId = JNum 1,
               properties = JObj [(''email'', wrapped (JStr ''jane@example.com'')),
                                  (''source_system'', wrapped (JStr ''SGCRM'')),
                                  (''firstname'', wrapped (JStr ''Jane'')),
                                  (''lastname'', wrapped (JStr ''Mary Doe''))]\<rparr>"
  let ?created = "[(''email'', JStr ''jane@example.com''), (''source_system'', JStr ''SGCRM''),
                   (''firstname'', JStr ''Jane''), (''lastname'', JStr ''Mary Doe'')]"
  let ?run = "webhook Smartlead open_runtime (reference_crm wrapped)
                ''2024-05-01T10:00:00.000Z'' req_jane []"
  let ?patch = "[(''source_system'', JStr ''Smartlead Email Campaign'')]"
  have adm: "admitted Smartlead open_runtime req_jane" by code_simp
  have h4: "contactInfo_of Smartlead (body req_jane) = Inr ?ci" by code_simp
  have g: "getOrCreateHubSpotContact (reference_crm wrapped)
             (contactEmail_of Smartlead (body req_jane)) ?ci []
             = (Inr ?hc, [Search (JStr ''jane@example.com''), Create ?created], [(1, ?created)])"
    by code_simp
  have ok: "js_to_string_ok (contactId ?hc)" by simp
  have p: "propertiesToUpdate_of Smartlead (body req_jane) ?ci ?hc = ?patch" by code_simp
  have m: "Update (JNum 1) ?patch \<in> set (calls_of ?run)" by code_simp
  note always = source_system_always[of Smartlead "body req_jane" ?ci ?hc open_runtime
         "reference_crm wrapped" "''2024-05-01T10:00:00.000Z''" req_jane "[]"
         "[Search (JStr ''jane@example.com''), Create ?created]" "[(1, ?created)]"]
  from always adm h4 g ok
  have "last (calls_of ?run) = Update (contactId ?hc)
          (propertiesToUpdate_of Smartlead (body req_jane) ?ci ?hc)"
    by blast
  then have l: "last (calls_of ?run) = Update (JNum 1) ?patch"
    unfolding p by simp
  from always m
  have "?patch \<noteq> [] \<and> map_of ?patch ''source_system'' = Some (JStr (source_system_label Smartlead))"
    by blast
  with adm h4 g l m show ?thesis by blast
qed

section \<open>The Smartlead patch\<close>

text \<open>
  Claim C10. On the Smartlead endpoint the contact info has \<open>phone\<close> and \<open>company\<close>
  null, whatever the name parts are, and the keys of every patch sent to the CRM are among
  \<open>source_system\<close>, \<open>firstname\<close> and \<open>lastname\<close>.
\<close>

theorem smartlead_patch_within:
  "phone (smartlead_contactInfo parts) = JNull
   \<and> company (smartlead_contactInfo parts) = JNull
   \<and> (\<forall>c patch. Update c patch \<in> set (calls_of (webhook Smartlead rt api now req s)) \<longrightarrow>
         fst ` set patch \<subseteq> {''source_system'', ''firstname'', ''lastname''})"
proof -
  have "fst ` set patch \<subseteq> {''source_system'', ''firstname'', ''lastname''}"
    if "Update c patch \<in> set (calls_of (webhook_smartlead rt api now req s))" for c patch
  proof -
    from smartlead_update_in_log[OF that] obtain ps hc
      where "patch = smartlead_propertiesToUpdate (smartlead_contactInfo ps) hc" by blast
    then show ?thesis
      using smartlead_patch_keys[of "smartlead_contactInfo ps" hc]
            smartlead_fill_gaps_keys[of ps hc] by blast
  qed
  then show ?thesis by (simp add: smartlead_contactInfo_def)
qed

theorem smartlead_patch_within_witness:
  "Update (JNum 1) [(''source_system'', JStr ''Smartlead Email Campaign''),
                    (''firstname'', JStr ''Jane''), (''lastname'', JStr ''Mary Doe'')]
     \<in> set (calls_of (webhook Smartlead open_runtime (reference_crm flat)
                        ''2024-05-01T10:00:00.000Z'' req_jane []))
   \<and> fst ` set [(''source_system'', JStr ''Smartlead Email Campaign''),
                 (''firstname'', JStr ''Jane''), (''lastname'', JStr ''Mary Doe'')]
       \<subseteq> {''source_system'', ''firstname'', ''lastname''}"
proof -
  have h: "Update (JNum 1) [(''source_system'', JStr ''Smartlead Email Campaign''),
                    (''firstname'', JStr ''Jane''), (''lastname'', JStr ''Mary Doe'')]
     \<in> set (calls_of (webhook Smartlead open_runtime (reference_crm flat)
                        ''2024-05-01T10:00:00.000Z'' req_jane []))"
    by code_simp
  from smartlead_patch_within[of "[]" open_runtime "reference_crm flat"
         "''2024-05-01T10:00:00.000Z''" req_jane "[]"] h
  show ?thesis by blast
qed

section \<open>Missing identity\<close>

text \<open>
  Claim C5, amended. On both endpoints, for a request that passed the signature gate and
  has a parsed body: when every candidate of the email fallback chain is falsy (absent,
  null, false, 0 or the empty string), the response has status 400, no CRM call is made and
  the CRM state is unchanged; when some candidate is truthy, a non-empty string or any
  other truthy value, the response is not the 400 of the missing identity.
\<close>

theorem missing_identity:
  assumes "verifyWebhookSignature rt req = Inr True" and "\<not> nullish (body req)"
  shows "((\<forall>c \<in> set (email_candidates ep (body req)). \<not> truthy c) \<longrightarrow>
            status (response_of (webhook ep rt api now req s)) = 400
          \<and> calls_of (webhook ep rt api now req s) = []
          \<and> state_of (webhook ep rt api now req s) = s)
       \<and> ((\<exists>c \<in> set (email_candidates ep (body req)). truthy c) \<longrightarrow>
            status (response_of (webhook ep rt api now req s)) \<noteq> 400)"
proof (cases "truthy (contactEmail_of ep (body req))")
  case False
  have "status (response_of (webhook ep rt api now req s)) = 400
          \<and> calls_of (webhook ep rt api now req s) = []
          \<and> state_of (webhook ep rt api now req s) = s"
  proof (cases ep)
    case SalesGodCRM
    with False have "\<not> truthy (sgcrm_contactEmail (body req))" by simp
    with assms SalesGodCRM show ?thesis
      by (cases rule: sgcrm_cases[of rt req api now s]) (simp_all add: admitted_def)
  next
    case Smartlead
    with False have "\<not> truthy (smartlead_contactEmail (body req))" by simp
    with assms Smartlead show ?thesis
      by (cases rule: smartlead_cases[of req rt api now s]) (simp_all add: admitted_def)
  qed
  with False show ?thesis using contactEmail_truthy[of ep "body req"] by blast
next
  case True
  have "status (response_of (webhook ep rt api now req s)) \<noteq> 400"
  proof (cases ep)
    case SalesGodCRM
    with True have "truthy (sgcrm_contactEmail (body req))" by simp
    with SalesGodCRM show ?thesis
      by (cases rule: sgcrm_cases[of rt req api now s])
         (simp_all add: response_of_def status_simps)
  next
    case Smartlead
    with True have "truthy (smartlead_contactEmail (body req))" by simp
    with Smartlead show ?thesis
      by (cases rule: smartlead_cases[of req rt api now s])
         (simp_all add: response_of_def status_simps)
  qed
  with True show ?thesis using contactEmail_truthy[of ep "body req"] by blast
qed

theorem missing_identity_witness:
  "verifyWebhookSignature open_runtime req_no_email = Inr True
   \<and> \<not> nullish (body req_no_email)
   \<and> email_candidates SalesGodCRM (body req_no_email) = [JStr [], JUndefined, JUndefined]
   \<and> status (response_of (webhook SalesGodCRM open_runtime (reference_crm wrapped)
                 ''2024-05-01T10:00:00.000Z'' req_no_email store_ann)) = 400
   \<and> calls_of (webhook SalesGodCRM open_runtime (reference_crm wrapped)
                 ''2024-05-01T10:00:00.000Z'' req_no_email store_ann) = []
   \<and> state_of (webhook SalesGodCRM open_runtime (reference_crm wrapped)
                 ''2024-05-01T10:00:00.000Z'' req_no_email store_ann) = store_ann
   \<and> email_candidates SalesGodCRM (body req_num) = [JNum 42, JUndefined, JUndefined]
   \<and> status (response_of (webhook SalesGodCRM open_runtime (reference_crm wrapped)
                 ''2024-05-01T10:00:00.000Z'' req_num [])) \<noteq> 400"
proof -
  have h1: "verifyWebhookSignature open_runtime req_no_email = Inr True" by code_simp
  have h2: "\<not> nullish (body req_no_email)" by code_simp
  have c: "email_candidates SalesGodCRM (body req_no_email) = [JStr [], JUndefined, JUndefined]"
    by code_simp
  have h3: "\<forall>c \<in> set (email_candidates SalesGodCRM (body req_no_email)). \<not> truthy c"
    unfolding c by simp
  have k1: "verifyWebhookSignature open_runtime req_num = Inr True" by code_simp
  have k2: "\<not> nullish (body req_num)" by code_simp
  have d: "email_candidates SalesGodCRM (body req_num) = [JNum 42, JUndefined, JUndefined]"
    by code_simp
  have k3: "\<exists>c \<in> set (email_candidates SalesGodCRM (body req_num)). truthy c"
    unfolding d by simp
  from missing_identity[OF h1 h2, of SalesGodCRM "reference_crm wrapped"
         "''2024-05-01T10:00:00.000Z''" store_ann] h3
  have a: "status (response_of (webhook SalesGodCRM open_runtime (reference_crm wrapped)
                 ''2024-05-01T10:00:00.000Z'' req_no_email store_ann)) = 400
   \<and> calls_of (webhook SalesGodCRM open_runtime (reference_crm wrapped)
                 ''2024-05-01T10:00:00.000Z'' req_no_email store_ann) = []
   \<and> state_of (webhook SalesGodCRM open_runtime (reference_crm wrapped)
                 ''2024-05-01T10:00:00.000Z'' req_no_email store_ann) = store_ann"
    by blast
  from missing_identity[OF k1 k2, of SalesGodCRM "reference_crm wrapped"
         "''2024-05-01T10:00:00.000Z''" "[]"] k3
  have b: "status (response_of (webhook SalesGodCRM open_runtime (reference_crm wrapped)
                 ''2024-05-01T10:00:00.000Z'' req_num [])) \<noteq> 400"
    by blast
  from h1 h2 c a d b show ?thesis by blast
qed

text \<open>
  Claim C5 as stated fails: the number 42 is no non-empty string, and yet it is taken as
  the identity; the contact is searched, created and updated.
\<close>

theorem missing_identity_counterexample:
  "email_candidates SalesGodCRM (body req_num) = [JNum 42, JUndefined, JUndefined]
   \<and> status (response_of (webhook SalesGodCRM open_runtime (reference_crm wrapped)
                 ''2024-05-01T10:00:00.000Z'' req_num [])) = 200
   \<and> calls_of (webhook SalesGodCRM open_runtime (reference_crm wrapped)
                 ''2024-05-01T10:00:00.000Z'' req_num [])
       = [Search (JNum 42),
          Create [(''email'', JNum 42), (''source_system'', JStr ''SGCRM'')],
          Update (JNum 1) [(''source_system'', JStr ''SGCRM'')]]"
  by code_simp

section \<open>The signature gate\<close>

text \<open>
  Claim C6, amended. With a non-empty secret configured and a parsed body (the digest being
  64 hex characters), the gate accepts a request exactly when its \<open>x-webhook-signature\<close>
  header is the hex HMAC-SHA256, under the secret, of \<open>JSON.stringify(req.body)\<close>, the
  serialisation of the parsed body. The bytes that the sender wrote are not read: the
  verdict is the same whatever they are, and a request signed over its bytes is accepted
  exactly when the digest of the bytes is the digest of that serialisation. A request that
  the gate does not accept is rejected, on either endpoint, with status 401, with no CRM
  call and the CRM state unchanged.
\<close>

theorem signature_gate:
  assumes "WEBHOOK_SECRET rt = Some secret" and "secret \<noteq> []"
    and "\<not> nullish (body req)"
    and "length (hmac_sha256_hex rt secret (JSON_stringify rt (body req))) = 64"
  shows "(verifyWebhookSignature rt req = Inr True \<longleftrightarrow>
            x_webhook_signature req
              = Some (hmac_sha256_hex rt secret (JSON_stringify rt (body req))))
       \<and> verifyWebhookSignature rt (req\<lparr>raw_body := bytes\<rparr>) = verifyWebhookSignature rt req
       \<and> (x_webhook_signature req = Some (hmac_sha256_hex rt secret (raw_body req)) \<longrightarrow>
            (verifyWebhookSignature rt req = Inr True \<longleftrightarrow>
               hmac_sha256_hex rt secret (raw_body req)
                 = hmac_sha256_hex rt secret (JSON_stringify rt (body req))))
       \<and> (verifyWebhookSignature rt req \<noteq> Inr True \<longrightarrow>
            verifyWebhookSignature rt req = Inr False
          \<and> status (response_of (webhook ep rt api now req s)) = 401
          \<and> calls_of (webhook ep rt api now req s) = []
          \<and> state_of (webhook ep rt api now req s) = s)"
proof -
  let ?digest = "hmac_sha256_hex rt secret (JSON_stringify rt (body req))"
  have nonempty: "?digest \<noteq> []"
    using assms(4) by auto
  have parsed: "body req \<noteq> JUndefined"
    using assms(3) by auto
  have gate: "verifyWebhookSignature rt req = Inr (x_webhook_signature req = Some ?digest)"
    using assms(1,2) nonempty parsed
    by (auto simp: verifyWebhookSignature_def split: option.splits)
  have bytes: "verifyWebhookSignature rt (req\<lparr>raw_body := bytes\<rparr>)
                 = verifyWebhookSignature rt req"
    by (simp add: verifyWebhookSignature_def split: option.splits)
  have "status (response_of (webhook ep rt api now req s)) = 401
          \<and> calls_of (webhook ep rt api now req s) = []
          \<and> state_of (webhook ep rt api now req s) = s"
    if "verifyWebhookSignature rt req = Inr False"
    using rejected_run[OF that assms(3), of ep api now s]
    by (simp add: response_of_def calls_of_def state_of_def status_simps)
  with gate bytes show ?thesis by auto
qed

text \<open>
  The body of the spec's example under the secret \<open>s3cret\<close>: the request with the digest
  of the serialisation is accepted, the one with another header is rejected with 401.
\<close>

theorem signature_gate_witness:
  "WEBHOOK_SECRET signed_runtime = Some ''s3cret''
   \<and> \<not> nullish (body req_forged)
   \<and> length (hmac_sha256_hex signed_runtime ''s3cret''
               (JSON_stringify signed_runtime (body req_forged))) = 64
   \<and> x_webhook_signature req_forged
       \<noteq> Some (hmac_sha256_hex signed_runtime ''s3cret''
                 (JSON_stringify signed_runtime (body req_forged)))
   \<and> verifyWebhookSignature signed_runtime req_forged = Inr False
   \<and> status (response_of (webhook Smartlead signed_runtime (reference_crm wrapped)
                 ''2024-05-01T10:00:00.000Z'' req_forged store_ann)) = 401
   \<and> calls_of (webhook Smartlead signed_runtime (reference_crm wrapped)
                 ''2024-05-01T10:00:00.000Z'' req_forged store_ann) = []
   \<and> x_webhook_signature req_signed
       = Some (hmac_sha256_hex signed_runtime ''s3cret''
                 (JSON_stringify signed_runtime (body req_signed)))
   \<and> verifyWebhookSignature signed_runtime req_signed = Inr True"
proof -
  have h1: "WEBHOOK_SECRET signed_runtime = Some ''s3cret''" by code_simp
  have h2: "''s3cret'' \<noteq> []" by simp
  have h3: "\<not> nullish (body req_forged)" by code_simp
  have h4: "length (hmac_sha256_hex signed_runtime ''s3cret''
               (JSON_stringify signed_runtime (body req_forged))) = 64"
    by code_simp
  have h5: "x_webhook_signature req_forged
       \<noteq> Some (hmac_sha256_hex signed_runtime ''s3cret''
                 (JSON_stringify signed_runtime (body req_forged)))"
    by code_simp
  have k3: "\<not> nullish (body req_signed)" by code_simp
  have k4: "length (hmac_sha256_hex signed_runtime ''s3cret''
               (JSON_stringify signed_runtime (body req_signed))) = 64"
    by code_simp
  have k5: "x_webhook_signature req_signed
       = Some (hmac_sha256_hex signed_runtime ''s3cret''
                 (JSON_stringify signed_runtime (body req_signed)))"
    by code_simp
  from signature_gate[OF h1 h2 h3 h4, of "[]" Smartlead "reference_crm wrapped"
        "''2024-05-01T10:00:00.000Z''" store_ann] h5
  have a: "verifyWebhookSignature signed_runtime req_forged = Inr False
   \<and> status (response_of (webhook Smartlead signed_runtime (reference_crm wrapped)
                 ''2024-05-01T10:00:00.000Z'' req_forged store_ann)) = 401
   \<and> calls_of (webhook Smartlead signed_runtime (reference_crm wrapped)
                 ''2024-05-01T10:00:00.000Z'' req_forged store_ann) = []"
    by blast
  from signature_gate[OF h1 h2 k3 k4, of "[]" Smartlead "reference_crm wrapped"
        "''2024-05-01T10:00:00.000Z''" store_ann] k5
  have b: "verifyWebhookSignature signed_runtime req_signed = Inr True"
    by blast
  from h1 h3 h4 h5 a k5 b show ?thesis by blast
qed

text \<open>
  Claim C6 as stated fails twice. The sender of \<open>req_signed_raw\<close> wrote the JSON with a
  space after the colon and signed these bytes: the header is the digest of the body as
  sent, and the request is rejected. \<open>req_unparsed\<close> has a header that is no digest and
  no parsed body: the answer is 500 on both endpoints, not 401.
\<close>

theorem signature_gate_counterexample:
  \<open>raw_body req_signed_raw = ''{"email": "a@b.com"}''
   \<and> x_webhook_signature req_signed_raw
       = Some (hmac_sha256_hex signed_runtime ''s3cret'' (raw_body req_signed_raw))
   \<and> verifyWebhookSignature signed_runtime req_signed_raw = Inr False
   \<and> status (response_of (webhook SalesGodCRM signed_runtime (reference_crm wrapped)
                 ''2024-05-01T10:00:00.000Z'' req_signed_raw store_ann)) = 401
   \<and> x_webhook_signature req_unparsed = Some ''deadbeef''
   \<and> body req_unparsed = JUndefined
   \<and> status (response_of (webhook SalesGodCRM signed_runtime (reference_crm wrapped)
                 ''2024-05-01T10:00:00.000Z'' req_unparsed store_ann)) = 500
   \<and> status (response_of (webhook Smartlead signed_runtime (reference_crm wrapped)
                 ''2024-05-01T10:00:00.000Z'' req_unparsed store_ann)) = 500\<close>
  by code_simp

text \<open>
  Claim C7. With no secret configured (the variable unset or empty) the gate accepts every
  request, whatever its signature header, and the response is never the 401 of the gate.
\<close>

theorem fail_open:
  assumes "WEBHOOK_SECRET rt = None \<or> WEBHOOK_SECRET rt = Some []"
  shows "verifyWebhookSignature rt req = Inr True
       \<and> status (response_of (webhook ep rt api now req s)) \<noteq> 401"
proof -
  have v: "verifyWebhookSignature rt req = Inr True"
    using assms by (auto simp: verifyWebhookSignature_def)
  have "status (response_of (webhook ep rt api now req s)) \<noteq> 401"
    using unauthorized_only_rejected[of ep rt api now req s] v by auto
  with v show ?thesis by simp
qed

theorem fail_open_witness:
  "WEBHOOK_SECRET open_runtime = None
   \<and> verifyWebhookSignature open_runtime req_forged = Inr True
   \<and> status (response_of (webhook SalesGodCRM open_runtime (reference_crm wrapped)
                 ''2024-05-01T10:00:00.000Z'' req_forged store_ann)) \<noteq> 401"
proof -
  have h: "WEBHOOK_SECRET open_runtime = None" by code_simp
  then have "WEBHOOK_SECRET open_runtime = None \<or> WEBHOOK_SECRET open_runtime = Some []"
    by simp
  from fail_open[OF this, of req_forged SalesGodCRM "reference_crm wrapped"
        "''2024-05-01T10:00:00.000Z''" store_ann] h
  show ?thesis by simp
qed

section \<open>The success result\<close>

text \<open>
  Claim C4, amended. On both endpoints, a response with status 200 is the object of
  \<open>success\<close>, \<open>hubspotContactId\<close>, \<open>action\<close> and \<open>auditLog\<close>: the contact id is
  the one the update call was sent to; \<open>action\<close> is \<open>created\<close> when the run created
  the contact and \<open>updated\<close> when the search found it; the audit record's \<open>action\<close> is
  \<open>created_new\<close> and \<open>updated_existing\<close> in the same two cases, and it lists the keys
  of the patch.
\<close>

theorem success_result:
  assumes "status (response_of (webhook ep rt api now req s)) = 200"
  shows "\<exists>c patch audit.
           last (calls_of (webhook ep rt api now req s)) = Update c patch
         \<and> json (response_of (webhook ep rt api now req s)) =
             JObj [(''success'', JBool True),
                   (''hubspotContactId'', c),
                   (''action'',
                    JStr (if \<exists>props. Create props \<in> set (calls_of (webhook ep rt api now req s))
                          then ''created'' else ''updated'')),
                   (''auditLog'', audit)]
         \<and> js_get audit ''action'' =
             JStr (if \<exists>props. Create props \<in> set (calls_of (webhook ep rt api now req s))
                   then ''created_new'' else ''updated_existing'')
         \<and> js_get audit ''hubspot_contact_id'' = c
         \<and> js_get audit ''email'' = contactEmail_of ep (body req)
         \<and> js_get audit ''properties_updated'' = object_keys patch"
proof (cases ep)
  case SalesGodCRM
  from assms SalesGodCRM
  have "status (response_of (webhook_salesgodscrm rt api now req s)) = 200" by simp
  then show ?thesis
  proof (cases rule: sgcrm_cases[of rt req api now s])
    case (synced hc calls1 s1 d s2)
    from getOrCreate_found_iff[OF synced(2)] show ?thesis
      unfolding SalesGodCRM webhook.simps synced(5) calls_of_def response_of_def
      by (cases "found hc") (simp_all add: sgcrm_success_def)
  qed (simp_all add: response_of_def status_simps)
next
  case Smartlead
  from assms Smartlead
  have "status (response_of (webhook_smartlead rt api now req s)) = 200" by simp
  then show ?thesis
  proof (cases rule: smartlead_cases[of req rt api now s])
    case (synced parts hc calls1 s1 d s2)
    from getOrCreate_found_iff[OF synced(3)] show ?thesis
      unfolding Smartlead webhook.simps synced(6) calls_of_def response_of_def
      by (cases "found hc") (simp_all add: smartlead_success_def)
  qed (simp_all add: response_of_def status_simps)
qed

theorem success_result_witness:
  "status (response_of (webhook SalesGodCRM open_runtime (reference_crm wrapped)
             ''2024-05-01T10:00:00.000Z'' req_bob store_ann)) = 200
   \<and> last (calls_of (webhook SalesGodCRM open_runtime (reference_crm wrapped)
             ''2024-05-01T10:00:00.000Z'' req_bob store_ann))
       = Update (JNum 1) [(''source_system'', JStr ''SGCRM''), (''lastname'', JStr ''Lee'')]
   \<and> js_get (json (response_of (webhook SalesGodCRM open_runtime (reference_crm wrapped)
             ''2024-05-01T10:00:00.000Z'' req_bob store_ann))) ''hubspotContactId'' = JNum 1
   \<and> js_get (json (response_of (webhook SalesGodCRM open_runtime (reference_crm wrapped)
             ''2024-05-01T10:00:00.000Z'' req_bob store_ann))) ''action'' = JStr ''updated''
   \<and> js_get (js_get (json (response_of (webhook SalesGodCRM open_runtime
             (reference_crm wrapped) ''2024-05-01T10:00:00.000Z'' req_bob store_ann)))
               ''auditLog'') ''action'' = JStr ''updated_existing''"
proof -
  have st: "status (response_of (webhook SalesGodCRM open_runtime (reference_crm wrapped)
             ''2024-05-01T10:00:00.000Z'' req_bob store_ann)) = 200"
    by code_simp
  have rest: "last (calls_of (webhook SalesGodCRM open_runtime (reference_crm wrapped)
             ''2024-05-01T10:00:00.000Z'' req_bob store_ann))
       = Update (JNum 1) [(''source_system'', JStr ''SGCRM''), (''lastname'', JStr ''Lee'')]
   \<and> js_get (json (response_of (webhook SalesGodCRM open_runtime (reference_crm wrapped)
             ''2024-05-01T10:00:00.000Z'' req_bob store_ann))) ''hubspotContactId'' = JNum 1
   \<and> js_get (json (response_of (webhook SalesGodCRM open_runtime (reference_crm wrapped)
             ''2024-05-01T10:00:00.000Z'' req_bob store_ann))) ''action'' = JStr ''updated''
   \<and> js_get (js_get (json (response_of (webhook SalesGodCRM open_runtime
             (reference_crm wrapped) ''2024-05-01T10:00:00.000Z'' req_bob store_ann)))
               ''auditLog'') ''action'' = JStr ''updated_existing''"
    by code_simp
  from success_result[OF st] st rest show ?thesis by blast
qed

text \<open>
  Claim C4 as stated fails: for a created contact the action of the response is
  \<open>created\<close>, the action of the audit record is \<open>created_new\<close>.
\<close>

theorem audit_action_counterexample:
  "status (response_of (webhook SalesGodCRM open_runtime (reference_crm wrapped)
             ''2024-05-01T10:00:00.000Z'' req_test_lead [])) = 200
   \<and> js_get (json (response_of (webhook SalesGodCRM open_runtime (reference_crm wrapped)
             ''2024-05-01T10:00:00.000Z'' req_test_lead []))) ''action'' = JStr ''created''
   \<and> js_get (js_get (json (response_of (webhook SalesGodCRM open_runtime
             (reference_crm wrapped) ''2024-05-01T10:00:00.000Z'' req_test_lead [])))
               ''auditLog'') ''action'' = JStr ''created_new''
   \<and> JStr ''created_new'' \<noteq> JStr ''created''
   \<and> JStr ''created_new'' \<noteq> JStr ''updated''"
  by code_simp

section \<open>The full name\<close>

text \<open>
  Claim C8, amended. For every non-empty full-name string the Smartlead handler splits at
  the spaces; the first name is the part before the first space, and null when that part
  is empty; the last name is the part after the first space (the remaining tokens joined
  by a space), and null when that part is empty. \<open>Jane Mary Doe\<close> gives Jane and
  Mary Doe; \<open>Solo\<close> gives Solo and null.
\<close>

theorem full_name_split:
  assumes "n \<noteq> []"
  shows "smartlead_nameParts (JStr n) = Inr (split_on CHR '' '' n)
       \<and> firstName (smartlead_contactInfo (split_on CHR '' '' n))
           = (if spec_first_name n = [] then JNull else JStr (spec_first_name n))
       \<and> lastName (smartlead_contactInfo (split_on CHR '' '' n))
           = (if spec_last_name n = [] then JNull else JStr (spec_last_name n))
       \<and> smartlead_contactInfo (split_on CHR '' '' ''Jane Mary Doe'')
           = \<lparr>firstName = JStr ''Jane'', lastName = JStr ''Mary Doe'',
              phone = JNull, company = JNull\<rparr>
       \<and> smartlead_contactInfo (split_on CHR '' '' ''Solo'')
           = \<lparr>firstName = JStr ''Solo'', lastName = JNull, phone = JNull, company = JNull\<rparr>"
proof -
  obtain w ws where w: "split_on CHR '' '' n = w # ws"
    using split_on_nonempty[of "CHR '' ''" n] by (cases "split_on CHR '' '' n") auto
  have first: "w = spec_first_name n"
    using hd_split_on[of "CHR '' ''" n] w by (simp add: spec_first_name_def)
  have last: "join_with '' '' ws = spec_last_name n"
    using tl_split_on[of "CHR '' ''" n] w by (simp add: spec_last_name_def)
  have parts: "smartlead_nameParts (JStr n) = Inr (split_on CHR '' '' n)"
    using assms by (simp add: smartlead_nameParts_def)
  have fn: "firstName (smartlead_contactInfo (split_on CHR '' '' n))
           = (if spec_first_name n = [] then JNull else JStr (spec_first_name n))"
    by (simp add: smartlead_contactInfo_def w js_or_def first)
  have ln: "lastName (smartlead_contactInfo (split_on CHR '' '' n))
           = (if spec_last_name n = [] then JNull else JStr (spec_last_name n))"
    by (simp add: smartlead_contactInfo_def w js_or_def last)
  have jane: "smartlead_contactInfo (split_on CHR '' '' ''Jane Mary Doe'')
           = \<lparr>firstName = JStr ''Jane'', lastName = JStr ''Mary Doe'',
              phone = JNull, company = JNull\<rparr>"
    by code_simp
  have solo: "smartlead_contactInfo (split_on CHR '' '' ''Solo'')
           = \<lparr>firstName = JStr ''Solo'', lastName = JNull, phone = JNull, company = JNull\<rparr>"
    by code_simp
  from parts fn ln jane solo show ?thesis by blast
qed

theorem full_name_split_witness:
  "''Jane  Doe'' \<noteq> []
   \<and> spec_first_name ''Jane  Doe'' = ''Jane''
   \<and> spec_last_name ''Jane  Doe'' = '' Doe''
   \<and> firstName (smartlead_contactInfo (split_on CHR '' '' ''Jane  Doe'')) = JStr ''Jane''
   \<and> lastName (smartlead_contactInfo (split_on CHR '' '' ''Jane  Doe'')) = JStr '' Doe''"
proof -
  have h: "''Jane  Doe'' \<noteq> []" by simp
  have f: "spec_first_name ''Jane  Doe'' = ''Jane''" by code_simp
  have l: "spec_last_name ''Jane  Doe'' = '' Doe''" by code_simp
  from full_name_split[OF h] h f l show ?thesis by simp
qed

text \<open>
  Claim C8 as stated fails for a name that starts with a space: the first token is the
  empty string, and the first name is null, not that token.
\<close>

theorem full_name_split_counterexample:
  "smartlead_nameParts (JStr '' Doe'') = Inr [[], ''Doe'']
   \<and> spec_first_name '' Doe'' = []
   \<and> firstName (smartlead_contactInfo [[], ''Doe'']) = JNull
   \<and> JNull \<noteq> JStr []
   \<and> lastName (smartlead_contactInfo [[], ''Doe'']) = JStr ''Doe''"
  by code_simp

section \<open>A previously unseen email\<close>




section \<open>Sending a payload twice\<close>

text \<open>
  Claim C9, amended. Against the reference CRM, whatever the rendering of its responses,
  and on both endpoints: for a request that gets to the resolution (it passed the gate,
  has an email, and its log line can be written) and has a contact info, with an email no
  stored contact has, the first send issues search, create and update and answers 200 with
  the action \<open>created\<close>; the second send of the same request, on the state the first one
  left, issues search and update and answers 200 with the action \<open>updated\<close>; and the
  update of the second send goes to the same contact with the same patch as the first.
\<close>

theorem sequential_sends:
  assumes "admitted ep rt req"
    and "contactInfo_of ep (body req) = Inr ci"
    and "unseen (contactEmail_of ep (body req)) store"
  shows "\<exists>cid patch.
           calls_of (webhook ep rt (reference_crm render) now1 req store)
             = [Search (contactEmail_of ep (body req)),
                Create (create_properties (contactEmail_of ep (body req)) ci),
                Update cid patch]
         \<and> status (response_of (webhook ep rt (reference_crm render) now1 req store)) = 200
         \<and> js_get (json (response_of (webhook ep rt (reference_crm render) now1 req store)))
              ''action'' = JStr ''created''
         \<and> calls_of (webhook ep rt (reference_crm render) now2 req
                       (state_of (webhook ep rt (reference_crm render) now1 req store)))
             = [Search (contactEmail_of ep (body req)), Update cid patch]
         \<and> status (response_of (webhook ep rt (reference_crm render) now2 req
                       (state_of (webhook ep rt (reference_crm render) now1 req store)))) = 200
         \<and> js_get (json (response_of (webhook ep rt (reference_crm render) now2 req
                       (state_of (webhook ep rt (reference_crm render) now1 req store)))))
              ''action'' = JStr ''updated''"
proof -
  let ?api = "reference_crm render"
  let ?e = "contactEmail_of ep (body req)"
  let ?props = "create_properties ?e ci"
  let ?i = "Suc (length store)"
  let ?shown = "\<lambda>ps. JObj (map (\<lambda>kv. (fst kv, render (snd kv))) ps)"
  let ?hc1 = "\<lparr>found = False, contactId = JNum (of_nat ?i), properties = ?shown ?props\<rparr>"
  let ?patch = "propertiesToUpdate_of ep (body req) ci ?hc1"
  let ?props' = "set_properties ?patch ?props"
  let ?store' = "store @ [(?i, ?props')]"
  let ?hc2 = "\<lparr>found = True, contactId = JNum (of_nat ?i), properties = ?shown ?props'\<rparr>"
  let ?run1 = "webhook ep rt ?api now1 req store"
  let ?run2 = "webhook ep rt ?api now2 req ?store'"

  \<comment> \<open>the first send: search, create, update\<close>
  have search1: "post_contacts_search ?api ?e store = (Inr [], store)"
    using assms(3) by (simp add: reference_crm_simps crm_search_unseen)
  have create1: "post_contacts ?api (JObj ?props) store
                   = (Inr (render_contact render (?i, ?props)), store @ [(?i, ?props)])"
    by (simp add: reference_crm_simps Let_def)
  have g1: "getOrCreateHubSpotContact ?api ?e ci store
              = (Inr ?hc1, [Search ?e, Create ?props], store @ [(?i, ?props)])"
    using getOrCreate_create[OF search1 admitted_email_ok[OF assms(1)] create1
            render_contact_get(3)]
    by (simp add: render_contact_get)
  have ok1: "js_to_string_ok (contactId ?hc1)" by simp
  have update1: "patch_contacts ?api (contactId ?hc1) (JObj ?patch) (store @ [(?i, ?props)])
                   = (Inr (render_contact render (?i, ?props')), ?store')"
    by (simp add: reference_crm_simps row_index_last Let_def del: of_nat_Suc)
  note run1 = webhook_resolved[OF assms(1,2) g1 ok1 update1, where now = now1]

  \<comment> \<open>what the store holds after it\<close>
  have email': "map_of ?props' ''email'' = Some ?e"
  proof (rule map_of_set_properties[OF create_properties_email], intro allI impI)
    fix v' assume "(''email'', v') \<in> set ?patch"
    from patch_entries[OF this] show "v' = ?e"
      using intent_fields_not_email[of "''email''" v' ci] by auto
  qed
  have kept: "map_of ?props' k = Some v"
    if kv: "(k, v) \<in> set (intent_fields ci)" and t: "truthy v" for k v
  proof (rule map_of_set_properties[OF create_properties_field[OF kv t]], intro allI impI)
    fix v' assume "(k, v') \<in> set ?patch"
    from patch_entries[OF this] show "v' = v"
      using intent_fields_not_email[OF kv] intent_fields_functional[OF kv] by auto
  qed

  \<comment> \<open>the second send: search, update with the same patch\<close>
  have search2: "post_contacts_search ?api ?e ?store'
                   = (Inr [render_contact render (?i, ?props')], ?store')"
    using crm_search_last[OF assms(3) email'] by (simp add: reference_crm_simps)
  have g2: "getOrCreateHubSpotContact ?api ?e ci ?store' = (Inr ?hc2, [Search ?e], ?store')"
    using getOrCreate_existing[OF search2 render_contact_get(3)]
    by (simp add: render_contact_get)
  have "fill_gaps ci ?hc2 = fill_gaps ci ?hc1"
  proof (rule fill_gaps_same)
    fix k v assume kv: "(k, v) \<in> set (intent_fields ci)" and t: "truthy v"
    show "js_opt (properties ?hc2) k = js_opt (properties ?hc1) k"
      using rendered_property[OF kept[OF kv t], of render]
            rendered_property[OF create_properties_field[OF kv t], of render ?e]
      by simp
  qed
  then have same: "propertiesToUpdate_of ep (body req) ci ?hc2 = ?patch"
    by (rule patch_same)
  have ok2: "js_to_string_ok (contactId ?hc2)" by simp
  have update2: "patch_contacts ?api (contactId ?hc2)
                   (JObj (propertiesToUpdate_of ep (body req) ci ?hc2)) ?store'
                   = (Inr (render_contact render (?i, set_properties ?patch ?props')),
                      store @ [(?i, set_properties ?patch ?props')])"
    unfolding same by (simp add: reference_crm_simps row_index_last Let_def del: of_nat_Suc)
  note run2 = webhook_resolved[OF assms(1,2) g2 ok2 update2, where now = now2]

  have "state_of ?run1 = ?store'" by (rule run1(2))
  with run1(1) run1(3)[OF refl] run1(4)[OF refl] run2(1) run2(3)[OF refl] run2(4)[OF refl] same
  show ?thesis by simp
qed

theorem sequential_sends_witness:
  "admitted Smartlead open_runtime req_jane
   \<and> contactEmail_of Smartlead (body req_jane) = JStr ''jane@example.com''
   \<and> contactInfo_of Smartlead (body req_jane)
       = Inr \<lparr>firstName = JStr ''Jane'', lastName = JStr ''Mary Doe'',
               phone = JNull, company = JNull\<rparr>
   \<and> unseen (JStr ''jane@example.com'') store_ann
   \<and> calls_of (webhook Smartlead open_runtime (reference_crm wrapped)
                 ''2024-05-01T10:00:00.000Z'' req_jane store_ann)
       = [Search (JStr ''jane@example.com''),
          Create [(''email'', JStr ''jane@example.com''), (''source_system'', JStr ''SGCRM''),
                  (''firstname'', JStr ''Jane''), (''lastname'', JStr ''Mary Doe'')],
          Update (JNum 2) [(''source_system'', JStr ''Smartlead Email Campaign'')]]
   \<and> calls_of (webhook Smartlead open_runtime (reference_crm wrapped)
                 ''2024-05-01T10:00:02.000Z'' req_jane
                 (state_of (webhook Smartlead open_runtime (reference_crm wrapped)
                    ''2024-05-01T10:00:00.000Z'' req_jane store_ann)))
       = [Search (JStr ''jane@example.com''),
          Update (JNum 2) [(''source_system'', JStr ''Smartlead Email Campaign'')]]"
proof -
  let ?ci = "\<lparr>firstName = JStr ''Jane'', lastName = JStr ''Mary Doe'',
              phone = JNull, company = JNull\<rparr>"
  have h1: "admitted Smartlead open_runtime req_jane" by code_simp
  have e: "contactEmail_of Smartlead (body req_jane) = JStr ''jane@example.com''"
    by code_simp
  have h2: "contactInfo_of Smartlead (body req_jane) = Inr ?ci" by code_simp
  have u: "unseen (JStr ''jane@example.com'') store_ann" by code_simp
  have h3: "unseen (contactEmail_of Smartlead (body req_jane)) store_ann"
    unfolding e by (rule u)
  have c1: "calls_of (webhook Smartlead open_runtime (reference_crm wrapped)
                 ''2024-05-01T10:00:00.000Z'' req_jane store_ann)
       = [Search (JStr ''jane@example.com''),
          Create [(''email'', JStr ''jane@example.com''), (''source_system'', JStr ''SGCRM''),
                  (''firstname'', JStr ''Jane''), (''lastname'', JStr ''Mary Doe'')],
          Update (JNum 2) [(''source_system'', JStr ''Smartlead Email Campaign'')]]"
    by code_simp
  from sequential_sends[OF h1 h2 h3, of wrapped "''2024-05-01T10:00:00.000Z''"
         "''2024-05-01T10:00:02.000Z''"] h1 e h2 u c1
  show ?thesis by auto
qed

text \<open>
  Claim C9 as stated fails: the two patches of the test lead are equal, so the key set of
  the second is no strict subset of the first's. Against the CRM that answers with the
  spec's RemoteContact both are \<open>source_system\<close> alone; against the one that answers
  with bare values both hold all five keys.
\<close>

theorem sequential_sends_counterexample:
  "unseen (JStr ''test.lead@example.com'') []
   \<and> calls_of (webhook SalesGodCRM open_runtime (reference_crm wrapped)
                 ''2024-05-01T10:00:00.000Z'' req_test_lead [])
       = [Search (JStr ''test.lead@example.com''),
          Create lead_properties,
          Update (JNum 1) [(''source_system'', JStr ''SGCRM'')]]
   \<and> calls_of (webhook SalesGodCRM open_runtime (reference_crm wrapped)
                 ''2024-05-01T10:00:02.000Z'' req_test_lead
                 (state_of (webhook SalesGodCRM open_runtime (reference_crm wrapped)
                    ''2024-05-01T10:00:00.000Z'' req_test_lead [])))
       = [Search (JStr ''test.lead@example.com''),
          Update (JNum 1) [(''source_system'', JStr ''SGCRM'')]]
   \<and> \<not> (fst ` set [(''source_system'', JStr ''SGCRM'')]
          \<subset> fst ` set [(''source_system'', JStr ''SGCRM'')])
   \<and> calls_of (webhook SalesGodCRM open_runtime (reference_crm flat)
                 ''2024-05-01T10:00:00.000Z'' req_test_lead [])
       = [Search (JStr ''test.lead@example.com''),
          Create lead_properties,
          Update (JNum 1)
            [(''source_system'', JStr ''SGCRM''), (''firstname'', JStr ''Test''),
             (''lastname'', JStr ''Lead''), (''phone'', JStr ''+1-555-0123''),
             (''company'', JStr ''Test Company'')]]
   \<and> calls_of (webhook SalesGodCRM open_runtime (reference_crm flat)
                 ''2024-05-01T10:00:02.000Z'' req_test_lead
                 (state_of (webhook SalesGodCRM open_runtime (reference_crm flat)
                    ''2024-05-01T10:00:00.000Z'' req_test_lead [])))
       = [Search (JStr ''test.lead@example.com''),
          Update (JNum 1)
            [(''source_system'', JStr ''SGCRM''), (''firstname'', JStr ''Test''),
             (''lastname'', JStr ''Lead''), (''phone'', JStr ''+1-555-0123''),
             (''company'', JStr ''Test Company'')]]"
  by code_simp

section \<open>An event that cannot be logged\<close>

text \<open>
  The \<open>event\<close> of \<open>req_unloggable\<close> has an own property \<open>toString\<close>: the log line
  throws, the handler answers 500, and no CRM call is made.
\<close>

lemma unloggable_event:
  "\<not> admitted SalesGodCRM open_runtime req_unloggable
   \<and> webhook SalesGodCRM open_runtime (reference_crm wrapped)
        ''2024-05-01T10:00:00.000Z'' req_unloggable []
     = (server_error open_runtime CannotConvertToPrimitive, [], [])"
  by code_simp

end
